theory Spec2Isabelle
  imports Main
begin

section \<open>Python values used by the three scrapers\<close>

text \<open>
  A Python \<open>str\<close> is a sequence of Unicode code points (lone surrogates included), so it
  is modelled as a list of naturals. \<open>lit\<close> turns a literal of the source into that
  representation.
\<close>

type_synonym pystr = "nat list"

definition lit :: "string \<Rightarrow> pystr" where
  "lit s = map of_char s"

text \<open>
  The exceptions the scripts can meet; \<open>RequestException\<close> is any exception that the
  GET raises (no connection, no name resolution, a timeout).
\<close>

datatype error =
  AttributeError | TypeError | IndexError | ValueError | UnicodeEncodeError | RequestException

text \<open>
  A string can be encoded in UTF-8 (without an error handler) when it holds no surrogate.
\<close>

definition encodable :: "pystr \<Rightarrow> bool" where
  "encodable s = list_all (\<lambda>c. \<not> (0xD800 \<le> c \<and> c < 0xE000)) s"

text \<open>\<open>str.isspace\<close> for one code point, and \<open>str.strip()\<close>.\<close>

definition py_isspace :: "nat \<Rightarrow> bool" where
  "py_isspace c \<longleftrightarrow>
     (9 \<le> c \<and> c \<le> 13) \<or> (28 \<le> c \<and> c \<le> 32) \<or> c = 133 \<or> c = 160 \<or> c = 5760 \<or>
     (8192 \<le> c \<and> c \<le> 8202) \<or> c = 8232 \<or> c = 8233 \<or> c = 8239 \<or> c = 8287 \<or> c = 12288"

definition py_strip :: "pystr \<Rightarrow> pystr" where
  "py_strip s = rev (dropWhile py_isspace (rev (dropWhile py_isspace s)))"

text \<open>\<open>s.split(sep)\<close> for a separator of one character: the result is never empty.\<close>

fun py_split :: "nat \<Rightarrow> pystr \<Rightarrow> pystr list" where
  "py_split sep [] = [[]]"
| "py_split sep (c # cs) =
     (if c = sep then [] # py_split sep cs
      else (case py_split sep cs of [] \<Rightarrow> [[c]] | x # xs \<Rightarrow> (c # x) # xs))"

text \<open>The maximal runs of non-whitespace of a string, and \<open>' '.join\<close>.\<close>

fun py_words :: "pystr \<Rightarrow> pystr \<Rightarrow> pystr list" where
  "py_words cur [] = (if cur = [] then [] else [cur])"
| "py_words cur (c # cs) =
     (if py_isspace c then (if cur = [] then py_words [] cs else cur # py_words [] cs)
      else py_words (cur @ [c]) cs)"

fun py_join :: "pystr list \<Rightarrow> pystr" where
  "py_join [] = []"
| "py_join [w] = w"
| "py_join (w # ws) = w @ [32] @ py_join ws"

text \<open>Truthiness of a value that is \<open>None\<close> or a string, as \<open>while next_url:\<close> tests it.\<close>

fun truthy :: "pystr option \<Rightarrow> bool" where
  "truthy None = False"
| "truthy (Some u) = (u \<noteq> [])"

section \<open>The parsed document (BeautifulSoup)\<close>

text \<open>
  A document is a tree of tags and strings. A tag has a name, its attributes (a
  dictionary, kept as an association list with the raw attribute strings) and its
  children. \<open>NavigableString\<close> is a text node. \<open>Comment\<close> stands for the strings that
  are no text of the page: comments, and likewise doctypes, declarations and processing
  instructions. They are strings too (subclasses of \<open>NavigableString\<close>), so they can be
  stripped, but \<open>get_text\<close> leaves them out.
\<close>

datatype node =
  Tag pystr "(pystr \<times> pystr) list" "node list" | NavigableString pystr | Comment pystr

text \<open>
  What \<open>find\<close> and \<open>find_all\<close> hand out is a tag of the tree together with its place in
  it; the scripts use the place only through \<open>next_sibling\<close>, so an element is the node
  paired with the node that follows it under the same parent.
\<close>

type_synonym element = "node \<times> node option"

text \<open>
  All descendants of a node in document order (a tag before its own descendants), each
  with its next sibling.
\<close>

fun descendants :: "node \<Rightarrow> element list"
  and descend_list :: "node list \<Rightarrow> element list" where
  "descendants (NavigableString s) = []"
| "descendants (Comment s) = []"
| "descendants (Tag n a cs) = descend_list cs"
| "descend_list [] = []"
| "descend_list (c # cs) =
     (c, case cs of [] \<Rightarrow> None | d # ds \<Rightarrow> Some d) # descendants c @ descend_list cs"

text \<open>
  \<open>tag.find_all(...)\<close> keeps the descendants that match, \<open>tag.find(...)\<close> is the first
  of them or \<open>None\<close> (named \<open>find_tag\<close> here: \<open>find\<close> is a function on lists in HOL).
\<close>

definition find_all :: "(node \<Rightarrow> bool) \<Rightarrow> node \<Rightarrow> element list" where
  "find_all p n = filter (\<lambda>e. p (fst e)) (descendants n)"

definition find_tag :: "(node \<Rightarrow> bool) \<Rightarrow> node \<Rightarrow> element option" where
  "find_tag p n = (case find_all p n of [] \<Rightarrow> None | e # es \<Rightarrow> Some e)"

text \<open>
  The filters of the scripts. A name matches a tag of that name. \<open>class_='c'\<close> (and
  \<open>attrs={'class': 'c'}\<close>) matches when \<open>c\<close> is one of the whitespace-separated
  classes of the tag, or is equal to all of them joined by single spaces. Any other
  attribute matches when its raw value is the given string.
\<close>

fun has_name :: "pystr \<Rightarrow> node \<Rightarrow> bool" where
  "has_name nm (Tag n a cs) = (n = nm)"
| "has_name nm (NavigableString s) = False"
| "has_name nm (Comment s) = False"

fun get_attr :: "pystr \<Rightarrow> node \<Rightarrow> pystr option" where
  "get_attr k (Tag n a cs) = map_of a k"
| "get_attr k (NavigableString s) = None"
| "get_attr k (Comment s) = None"

definition has_class :: "pystr \<Rightarrow> node \<Rightarrow> bool" where
  "has_class c n =
     (case get_attr (lit ''class'') n of
        None \<Rightarrow> False
      | Some v \<Rightarrow> c \<in> set (py_words [] v) \<or> py_join (py_words [] v) = c)"

definition has_attr :: "pystr \<Rightarrow> pystr \<Rightarrow> node \<Rightarrow> bool" where
  "has_attr k v n = (get_attr k n = Some v)"

text \<open>
  \<open>get_text()\<close> and \<open>.text\<close> of a tag: the text nodes below it, concatenated;
  comments are left out.
\<close>

fun get_text :: "node \<Rightarrow> pystr" where
  "get_text (NavigableString s) = s"
| "get_text (Comment s) = []"
| "get_text (Tag n a cs) = concat (map get_text cs)"

text \<open>\<open>tag.find_all()\<close> without a filter finds the tags.\<close>

fun is_tag :: "node \<Rightarrow> bool" where
  "is_tag (Tag n a cs) = True"
| "is_tag (NavigableString s) = False"
| "is_tag (Comment s) = False"

text \<open>
  The value of a field of a record. The scripts mean it to be a string; the German one
  can also store the list of tags that calling a tag returns (see \<open>next_sibling_strip\<close>).
\<close>

datatype pyval = Str pystr | ResultSet "node list"

text \<open>
  \<open>x.next_sibling.strip()\<close>. A text node or a comment is a string and is stripped.
  \<open>None\<close> has no attribute \<open>strip\<close>. On a tag, \<open>.strip\<close> is \<open>tag.find('strip')\<close>, the
  first tag of that name below it: when there is none, calling \<open>None\<close> is a
  \<open>TypeError\<close>; when there is one, calling it is its \<open>find_all()\<close>, the list of
  the tags below it.
\<close>

fun next_sibling_strip :: "element \<Rightarrow> error + pyval" where
  "next_sibling_strip (n, None) = Inl AttributeError"
| "next_sibling_strip (n, Some (NavigableString s)) = Inr (Str (py_strip s))"
| "next_sibling_strip (n, Some (Comment s)) = Inr (Str (py_strip s))"
| "next_sibling_strip (n, Some (Tag m a cs)) =
     (case find_tag (has_name (lit ''strip'')) (Tag m a cs) of
        None \<Rightarrow> Inl TypeError
      | Some e \<Rightarrow> Inr (ResultSet (map fst (find_all is_tag (fst e)))))"

text \<open>
  Every string that the markup of a node shows: names, attribute names and values,
  texts and comments. \<open>str\<close> of a list of tags is their markup, so it can be encoded
  when all these strings can.
\<close>

fun strings_of :: "node \<Rightarrow> pystr list" where
  "strings_of (NavigableString s) = [s]"
| "strings_of (Comment s) = [s]"
| "strings_of (Tag n a cs) =
     n # concat (map (\<lambda>kv. [fst kv, snd kv]) a) @ concat (map strings_of cs)"

fun str_encodable :: "pyval \<Rightarrow> bool" where
  "str_encodable (Str s) = encodable s"
| "str_encodable (ResultSet ns) = list_all encodable (concat (map strings_of ns))"

section \<open>The world: pages behind URLs, the request log, the files\<close>

text \<open>
  A response has a status code and a body; \<open>soup_of\<close> is the body as the parser reads
  it, \<open>BeautifulSoup(response.text, "html.parser")\<close>, which never fails. \<open>web\<close> gives,
  for a URL, the response or the exception that the GET raises. A response with an error
  status is a response: no script looks at the status or calls \<open>raise_for_status\<close>.
  The request log lists the URLs that were requested, oldest first: one entry per GET, so
  its length counts the fetches. A file is the list of the rows written to it, a row the
  list of its fields; a field is the value handed to the writer, which writes its
  \<open>str\<close>. Opening the file and printing to the console are taken to succeed.
\<close>

datatype response = Response (status_code: nat) (soup_of: node)

type_synonym web = "pystr \<Rightarrow> error + response"
type_synonym requests = "pystr list"
type_synonym record_t = "(pystr \<times> pyval) list"
type_synonym files = "pystr \<rightharpoonup> pyval list list"

definition session_get :: "web \<Rightarrow> pystr \<Rightarrow> requests \<Rightarrow> (error + response) \<times> requests" where
  "session_get w url log = (w url, log @ [url])"

section \<open>german\_scraper\_main.py\<close>

text \<open>The body of the loop over \<open>tr_elements\<close> for one row: \<open>None\<close> is \<open>continue\<close>.\<close>

definition german_row :: "node \<Rightarrow> error + record_t option" where
  "german_row tr =
     (let tds = find_all (has_name (lit ''td'')) tr in
      if length tds < 2 then Inr None
      else
        let date = Str (py_strip (get_text (fst (tds ! 0))));
            details_block = fst (tds ! 1);
            link_element = find_tag (has_name (lit ''a'')) details_block;
            device = (case link_element of
                        Some l \<Rightarrow> Str (py_strip (get_text (fst l)))
                      | None \<Rightarrow> Str (lit ''N/A''));
            strong_elements = find_all (has_name (lit ''strong'')) details_block
        in if length strong_elements \<ge> 2 then
             (case next_sibling_strip (strong_elements ! 0) of
                Inl e \<Rightarrow> Inl e
              | Inr device_type \<Rightarrow>
                 (case next_sibling_strip (strong_elements ! 1) of
                    Inl e \<Rightarrow> Inl e
                  | Inr device_reference \<Rightarrow>
                      Inr (Some [(lit ''date'', date), (lit ''device'', device),
                                 (lit ''device_type'', device_type),
                                 (lit ''device_reference'', device_reference)])))
           else
             Inr (Some [(lit ''date'', date), (lit ''device'', device),
                        (lit ''device_type'', Str (lit ''N/A'')),
                        (lit ''device_reference'', Str (lit ''N/A''))]))"

text \<open>The loop \<open>for tr in tr_elements\<close>, appending to \<open>data_list\<close>.\<close>

fun german_rows :: "node list \<Rightarrow> record_t list \<Rightarrow> error + record_t list" where
  "german_rows [] data_list = Inr data_list"
| "german_rows (tr # trs) data_list =
     (case german_row tr of
        Inl e \<Rightarrow> Inl e
      | Inr None \<Rightarrow> german_rows trs data_list
      | Inr (Some d) \<Rightarrow> german_rows trs (data_list @ [d]))"

text \<open>Lines 46 to 75 of \<open>get_data_page\<close>: the records of a page.\<close>

definition german_extract :: "node \<Rightarrow> error + record_t list" where
  "german_extract soup =
     german_rows (map fst (find_all (has_name (lit ''tr'')) soup)) []"

text \<open>
  Lines 77 to 82: \<open>soup.find('li', class_=...).find('a')\<close> calls \<open>find\<close> on the
  result of the first \<open>find\<close>, which is \<open>None\<close> when the page has no such item.
\<close>

definition german_next :: "node \<Rightarrow> error + pystr option" where
  "german_next soup =
     (case find_tag (\<lambda>n. has_name (lit ''li'') n \<and> has_class (lit ''c-navindex__item is-forward'') n) soup of
        None \<Rightarrow> Inl AttributeError
      | Some li \<Rightarrow>
         (case find_tag (has_name (lit ''a'')) (fst li) of
            Some next_link \<Rightarrow> Inr (get_attr (lit ''href'') (fst next_link))
          | None \<Rightarrow> Inr None))"

definition german_page :: "node \<Rightarrow> error + (record_t list \<times> pystr option)" where
  "german_page soup =
     (case german_extract soup of
        Inl e \<Rightarrow> Inl e
      | Inr data_list \<Rightarrow>
         (case german_next soup of
            Inl e \<Rightarrow> Inl e
          | Inr next_url \<Rightarrow> Inr (data_list, next_url)))"

definition german_get_data_page ::
  "web \<Rightarrow> pystr \<Rightarrow> requests \<Rightarrow> (error + (record_t list \<times> pystr option)) \<times> requests" where
  "german_get_data_page w url log =
     (case session_get w url log of
        (Inl e, log') \<Rightarrow> (Inl e, log')
      | (Inr response, log') \<Rightarrow> (german_page (soup_of response), log'))"

text \<open>
  The loop of \<open>get_data\<close> (the same text in the Dutch and the German script, and inlined
  in \<open>main\<close> of the Italian one): \<open>page\<close> is what one iteration calls to fetch and read
  one page. Nothing bounds the number of iterations, so the loop is a partial function
  and \<open>None\<close> stands for a run that never ends. An exception of \<open>page\<close> leaves the loop.
\<close>

type_synonym page_fn =
  "pystr \<Rightarrow> requests \<Rightarrow> (error + (record_t list \<times> pystr option)) \<times> requests"

partial_function (option) get_data_loop ::
  "page_fn \<Rightarrow> pystr option \<Rightarrow> record_t list \<Rightarrow> requests \<Rightarrow> ((error + record_t list) \<times> requests) option" where
  "get_data_loop page next_url data_list log =
     (if truthy next_url then
        (case page (the next_url) log of
           (Inl e, log') \<Rightarrow> Some (Inl e, log')
         | (Inr (data_page, next_url'), log') \<Rightarrow>
             get_data_loop page next_url' (data_list @ data_page) log')
      else Some (Inr data_list, log))"

text \<open>The records an iteration adds to \<open>data_list\<close>: none when the page raised.\<close>

fun records_of :: "error + (record_t list \<times> pystr option) \<Rightarrow> record_t list" where
  "records_of (Inl e) = []"
| "records_of (Inr (data_page, next_url)) = data_page"

definition german_get_data ::
  "web \<Rightarrow> pystr \<Rightarrow> requests \<Rightarrow> ((error + record_t list) \<times> requests) option" where
  "german_get_data w start_url log =
     get_data_loop (german_get_data_page w) (Some start_url) [] log"

section \<open>Writing the CSV file\<close>

text \<open>
  \<open>csv.DictWriter\<close> with its defaults: a row holds, for each field name in order, the
  value of the record under that name, or the empty string; a record with a key that is
  no field name is a \<open>ValueError\<close>.
\<close>

definition dict_to_list :: "pystr list \<Rightarrow> record_t \<Rightarrow> error + pyval list" where
  "dict_to_list fieldnames rowdict =
     (if list_ex (\<lambda>k. k \<notin> set fieldnames) (map fst rowdict) then Inl ValueError
      else Inr (map (\<lambda>k. case map_of rowdict k of Some v \<Rightarrow> v | None \<Rightarrow> Str []) fieldnames))"

text \<open>
  The writer hands the line of a row to the file, which was opened with
  \<open>encoding="utf-8"\<close> and encodes it at once: a row with a field that cannot be encoded
  is a \<open>UnicodeEncodeError\<close>, and nothing of the row is written.
\<close>

definition write_line :: "pyval list \<Rightarrow> pyval list list \<Rightarrow> error + pyval list list" where
  "write_line row out =
     (if list_all str_encodable row then Inr (out @ [row]) else Inl UnicodeEncodeError)"

fun writerows :: "pystr list \<Rightarrow> record_t list \<Rightarrow> pyval list list \<Rightarrow> error option \<times> pyval list list" where
  "writerows fieldnames [] out = (None, out)"
| "writerows fieldnames (item # items) out =
     (case dict_to_list fieldnames item of
        Inl e \<Rightarrow> (Some e, out)
      | Inr row \<Rightarrow>
         (case write_line row out of
            Inl e \<Rightarrow> (Some e, out)
          | Inr out' \<Rightarrow> writerows fieldnames items out'))"

text \<open>\<open>writeheader\<close> writes the field names as a row.\<close>

definition writeheader :: "pystr list \<Rightarrow> pyval list list \<Rightarrow> error + pyval list list" where
  "writeheader fieldnames out = write_line (map Str fieldnames) out"

text \<open>
  \<open>write_to_csv\<close> of the Dutch and of the German script (the same text). \<open>open(filename,
  "w")\<close> comes first and leaves an empty file; \<open>data[0]\<close> is an \<open>IndexError\<close> on an empty
  list; what was written before an exception stays in the file.
\<close>

definition write_to_csv :: "record_t list \<Rightarrow> pystr \<Rightarrow> files \<Rightarrow> error option \<times> files" where
  "write_to_csv data filename fs =
     (let fs' = fs(filename \<mapsto> []) in
      case data of
        [] \<Rightarrow> (Some IndexError, fs')
      | first # rest \<Rightarrow>
          let keys = map fst first in
          (case writeheader keys [] of
             Inl e \<Rightarrow> (Some e, fs')
           | Inr out \<Rightarrow>
               let (err, rows) = writerows keys data out
               in (err, fs'(filename \<mapsto> rows))))"

text \<open>\<open>main\<close> of the German script: the file is written only \<open>if data\<close>.\<close>

definition german_start_url :: pystr where
  "german_start_url = lit ''http://www.bfarm.de/EN/Medical-devices/Tasks/Risk-assessment-and-research/Field-corrective-actions/_node.html''"

definition german_main :: "web \<Rightarrow> files \<Rightarrow> requests \<Rightarrow> (error option \<times> files \<times> requests) option" where
  "german_main w fs log =
     (case german_get_data w german_start_url log of
        None \<Rightarrow> None
      | Some (Inl e, log') \<Rightarrow> Some (Some e, fs, log')
      | Some (Inr data, log') \<Rightarrow>
          if data \<noteq> [] then
            (case write_to_csv data (lit ''devices_data.csv'') fs of
               (err, fs') \<Rightarrow> Some (err, fs', log'))
          else Some (None, fs, log'))"

section \<open>dutch\_scraper\_main.py\<close>

text \<open>The body of \<open>for link in link_elements\<close>: \<open>find\<close> may give \<open>None\<close>, which has no \<open>text\<close>.\<close>

definition dutch_link :: "node \<Rightarrow> error + record_t" where
  "dutch_link link =
     (case find_tag (has_name (lit ''h3'')) link of
        None \<Rightarrow> Inl AttributeError
      | Some h3 \<Rightarrow>
         (case find_tag (has_name (lit ''p'')) link of
            None \<Rightarrow> Inl AttributeError
          | Some p \<Rightarrow>
             (case find_tag (\<lambda>n. has_name (lit ''p'') n \<and> has_class (lit ''meta'') n) link of
                None \<Rightarrow> Inl AttributeError
              | Some meta \<Rightarrow>
                  Inr [(lit ''title'', Str (py_strip (get_text (fst h3)))),
                       (lit ''warning_text'', Str (py_strip (get_text (fst p)))),
                       (lit ''date'',
                          Str (py_strip (last (py_split 124 (py_strip (get_text (fst meta)))))))])))"

fun dutch_links :: "node list \<Rightarrow> record_t list \<Rightarrow> error + record_t list" where
  "dutch_links [] data_list = Inr data_list"
| "dutch_links (link # links) data_list =
     (case dutch_link link of
        Inl e \<Rightarrow> Inl e
      | Inr d \<Rightarrow> dutch_links links (data_list @ [d]))"

definition dutch_extract :: "node \<Rightarrow> error + record_t list" where
  "dutch_extract soup =
     dutch_links
       (map fst (find_all (\<lambda>n. has_name (lit ''a'') n \<and> has_class (lit ''publication'') n) soup)) []"

text \<open>Lines 65 to 77: the next link, with both \<open>None\<close> cases tested.\<close>

definition dutch_next :: "node \<Rightarrow> pystr option" where
  "dutch_next soup =
     (case find_tag (\<lambda>n. has_name (lit ''li'') n \<and> has_class (lit ''paging__unit paging__unit--next'') n) soup of
        Some next_link_element \<Rightarrow>
          (case find_tag (has_name (lit ''a'')) (fst next_link_element) of
             Some next_link \<Rightarrow> get_attr (lit ''href'') (fst next_link)
           | None \<Rightarrow> None)
      | None \<Rightarrow> None)"

text \<open>
  The \<open>try\<close> block of \<open>get_data_page\<close> (\<open>dutch_page\<close> is its part after the parser),
  and the function with its \<open>except Exception\<close>.
\<close>

definition dutch_page :: "node \<Rightarrow> error + (record_t list \<times> pystr option)" where
  "dutch_page soup =
     (case dutch_extract soup of
        Inl e \<Rightarrow> Inl e
      | Inr data_list \<Rightarrow> Inr (data_list, dutch_next soup))"

definition dutch_try ::
  "web \<Rightarrow> pystr \<Rightarrow> requests \<Rightarrow> (error + (record_t list \<times> pystr option)) \<times> requests" where
  "dutch_try w url log =
     (case session_get w url log of
        (Inl e, log') \<Rightarrow> (Inl e, log')
      | (Inr response, log') \<Rightarrow> (dutch_page (soup_of response), log'))"

definition dutch_get_data_page ::
  "web \<Rightarrow> pystr \<Rightarrow> requests \<Rightarrow> (record_t list \<times> pystr option) \<times> requests" where
  "dutch_get_data_page w url log =
     (case dutch_try w url log of
        (Inl e, log') \<Rightarrow> (([], None), log')
      | (Inr r, log') \<Rightarrow> (r, log'))"

definition dutch_get_data ::
  "web \<Rightarrow> pystr \<Rightarrow> requests \<Rightarrow> ((error + record_t list) \<times> requests) option" where
  "dutch_get_data w start_url log =
     get_data_loop (\<lambda>url log. case dutch_get_data_page w url log of (r, log') \<Rightarrow> (Inr r, log'))
       (Some start_url) [] log"

text \<open>The script itself: \<open>write_to_csv\<close> is called whatever \<open>get_data\<close> returned.\<close>

definition dutch_start_url :: pystr where
  "dutch_start_url = lit ''https://www.igj.nl/onderwerpen/waarschuwingen-medische-hulpmiddelen/documenten?trefwoord=&startdatum=01-01-2013&einddatum=&onderwerp=Alle+onderwerpen&onderdeel=Alle+onderdelen&type=Alle+publicaties''"

definition dutch_script :: "web \<Rightarrow> files \<Rightarrow> requests \<Rightarrow> (error option \<times> files \<times> requests) option" where
  "dutch_script w fs log =
     (case dutch_get_data w dutch_start_url log of
        None \<Rightarrow> None
      | Some (Inl e, log') \<Rightarrow> Some (Some e, fs, log')
      | Some (Inr data, log') \<Rightarrow>
          (case write_to_csv data (lit ''devices_data.csv'') fs of
             (err, fs') \<Rightarrow> Some (err, fs', log')))"

section \<open>italy\_scraper\_main.py\<close>

text \<open>
  \<open>text.encode('utf-8', 'surrogatepass')\<close>: the UTF-8 bytes of each code point, a
  surrogate (\<open>D800\<close> to \<open>DFFF\<close>) written with the three-byte pattern like any other code
  point below \<open>10000\<close>. Bytes are naturals below 256.
\<close>

definition encode_char :: "nat \<Rightarrow> nat list" where
  "encode_char c =
     (if c < 0x80 then [c]
      else if c < 0x800 then [0xC0 + c div 64, 0x80 + c mod 64]
      else if c < 0x10000 then [0xE0 + c div 4096, 0x80 + (c div 64) mod 64, 0x80 + c mod 64]
      else [0xF0 + c div 262144, 0x80 + (c div 4096) mod 64, 0x80 + (c div 64) mod 64,
            0x80 + c mod 64])"

definition utf8_encode_surrogatepass :: "pystr \<Rightarrow> nat list" where
  "utf8_encode_surrogatepass text = concat (map encode_char text)"

text \<open>
  \<open>bytes.decode('utf-8', 'ignore')\<close>, after the decoder of CPython: a lead byte and the
  continuation bytes it needs give one code point; overlong forms, surrogates and code
  points above \<open>10FFFF\<close> are refused at the second byte. At an invalid byte the bytes
  read so far are dropped and decoding goes on at the offending byte; a sequence cut
  off by the end of the input is dropped.
\<close>

definition is_cont :: "nat \<Rightarrow> bool" where
  "is_cont b \<longleftrightarrow> 0x80 \<le> b \<and> b < 0xC0"

fun utf8_decode_ignore :: "nat list \<Rightarrow> pystr" where
  "utf8_decode_ignore [] = []"
| "utf8_decode_ignore (ch # s) =
     (if ch < 0x80 then ch # utf8_decode_ignore s
      else if ch < 0xC2 then utf8_decode_ignore s
      else if ch < 0xE0 then
        (case s of
           [] \<Rightarrow> []
         | ch2 # s2 \<Rightarrow>
             if \<not> is_cont ch2 then utf8_decode_ignore s
             else (ch * 64 + ch2 - (0xC0 * 64 + 0x80)) # utf8_decode_ignore s2)
      else if ch < 0xF0 then
        (case s of
           [] \<Rightarrow> []
         | ch2 # s2 \<Rightarrow>
             if \<not> is_cont ch2 \<or> (ch = 0xE0 \<and> ch2 < 0xA0) \<or> (ch = 0xED \<and> ch2 \<ge> 0xA0)
             then utf8_decode_ignore s
             else
               (case s2 of
                  [] \<Rightarrow> []
                | ch3 # s3 \<Rightarrow>
                    if \<not> is_cont ch3 then utf8_decode_ignore s2
                    else (ch * 4096 + ch2 * 64 + ch3 - (0xE0 * 4096 + 0x80 * 64 + 0x80))
                         # utf8_decode_ignore s3))
      else if ch < 0xF5 then
        (case s of
           [] \<Rightarrow> []
         | ch2 # s2 \<Rightarrow>
             if \<not> is_cont ch2 \<or> (ch = 0xF0 \<and> ch2 < 0x90) \<or> (ch = 0xF4 \<and> ch2 \<ge> 0x90)
             then utf8_decode_ignore s
             else
               (case s2 of
                  [] \<Rightarrow> []
                | ch3 # s3 \<Rightarrow>
                    if \<not> is_cont ch3 then utf8_decode_ignore s2
                    else
                      (case s3 of
                         [] \<Rightarrow> []
                       | ch4 # s4 \<Rightarrow>
                           if \<not> is_cont ch4 then utf8_decode_ignore s3
                           else (ch * 262144 + ch2 * 4096 + ch3 * 64 + ch4
                                   - (0xF0 * 262144 + 0x80 * 4096 + 0x80 * 64 + 0x80))
                                # utf8_decode_ignore s4)))
      else utf8_decode_ignore s)"

definition remove_surrogates :: "pystr \<Rightarrow> pystr" where
  "remove_surrogates text = utf8_decode_ignore (utf8_encode_surrogatepass text)"

text \<open>\<open>requests.get\<close> and the parser: an exception of the GET leaves \<open>get_page\<close>.\<close>

definition get_page :: "web \<Rightarrow> pystr \<Rightarrow> requests \<Rightarrow> (error + node) \<times> requests" where
  "get_page w url log =
     (case session_get w url log of
        (Inl e, log') \<Rightarrow> (Inl e, log')
      | (Inr response, log') \<Rightarrow> (Inr (soup_of response), log'))"

text \<open>The body of \<open>for row in rows[1:]\<close>: \<open>cols[0]\<close> of a row without cells is an \<open>IndexError\<close>.\<close>

definition scrape_row :: "node \<Rightarrow> error + record_t" where
  "scrape_row row =
     (case find_all (has_name (lit ''td'')) row of
        [] \<Rightarrow> Inl IndexError
      | col # cols \<Rightarrow>
          Inr [(lit ''column_1'', Str (remove_surrogates (py_strip (get_text (fst col)))))])"

fun scrape_rows :: "node list \<Rightarrow> record_t list \<Rightarrow> error + record_t list" where
  "scrape_rows [] data = Inr data"
| "scrape_rows (row # rows) data =
     (case scrape_row row of
        Inl e \<Rightarrow> Inl e
      | Inr record \<Rightarrow> scrape_rows rows (data @ [record]))"

definition scrape_page :: "node \<Rightarrow> error + record_t list" where
  "scrape_page soup =
     (case find_tag (\<lambda>n. has_name (lit ''table'') n \<and> has_class (lit ''some_class'') n) soup of
        Some table \<Rightarrow>
          scrape_rows (drop 1 (map fst (find_all (has_name (lit ''tr'')) (fst table)))) []
      | None \<Rightarrow> Inr [])"

definition get_next_page :: "node \<Rightarrow> pystr option" where
  "get_next_page soup =
     (case find_tag (\<lambda>n. has_name (lit ''a'') n \<and> has_attr (lit ''title'') (lit ''Next Page'') n) soup of
        Some next_page_element \<Rightarrow> get_attr (lit ''href'') (fst next_page_element)
      | None \<Rightarrow> None)"

text \<open>\<open>save_to_csv\<close> tests \<open>if data\<close> before it opens the file.\<close>

definition save_to_csv :: "record_t list \<Rightarrow> pystr \<Rightarrow> files \<Rightarrow> error option \<times> files" where
  "save_to_csv data filename fs =
     (case data of
        first # rest \<Rightarrow>
          let keys = map fst first;
              fs' = fs(filename \<mapsto> [])
          in (case writeheader keys [] of
                Inl e \<Rightarrow> (Some e, fs')
              | Inr out \<Rightarrow>
                  let (err, rows) = writerows keys data out
                  in (err, fs'(filename \<mapsto> rows)))
      | [] \<Rightarrow> (None, fs))"

text \<open>One iteration of the loop of \<open>main\<close>, and \<open>main\<close>.\<close>

definition italy_page :: "web \<Rightarrow> page_fn" where
  "italy_page w url log =
     (case get_page w url log of
        (Inl e, log') \<Rightarrow> (Inl e, log')
      | (Inr soup, log') \<Rightarrow>
          (case scrape_page soup of
             Inl e \<Rightarrow> (Inl e, log')
           | Inr data \<Rightarrow> (Inr (data, get_next_page soup), log')))"

definition italy_main :: "web \<Rightarrow> files \<Rightarrow> requests \<Rightarrow> (error option \<times> files \<times> requests) option" where
  "italy_main w fs log =
     (case get_data_loop (italy_page w) (Some (lit ''http://example.com/some_page'')) [] log of
        None \<Rightarrow> None
      | Some (Inl e, log') \<Rightarrow> Some (Some e, fs, log')
      | Some (Inr all_data, log') \<Rightarrow>
          (case save_to_csv all_data (lit ''unified_data.csv'') fs of
             (err, fs') \<Rightarrow> Some (err, fs', log')))"

section \<open>Example pages\<close>

definition document :: "node list \<Rightarrow> node" where
  "document cs = Tag (lit ''[document]'') [] cs"

definition text_tag :: "string \<Rightarrow> string \<Rightarrow> node" where
  "text_tag nm s = Tag (lit nm) [] [NavigableString (lit s)]"

text \<open>Rows of the German table: complete, without anchor and bold, with one cell, and
  with a second bold element that nothing follows.\<close>

definition full_row :: node where
  "full_row = Tag (lit ''tr'') []
     [text_tag ''td'' '' 2023-01-02 '',
      Tag (lit ''td'') []
        [Tag (lit ''a'') [(lit ''href'', lit ''/x'')] [NavigableString (lit ''Pump'')],
         text_tag ''strong'' ''Type:'', NavigableString (lit '' infusion ''),
         text_tag ''strong'' ''Ref:'', NavigableString (lit '' 123 '')]]"

definition plain_row :: node where
  "plain_row = Tag (lit ''tr'') [] [text_tag ''td'' ''2023-01-03'', text_tag ''td'' ''Stent'']"

definition one_cell_row :: node where
  "one_cell_row = Tag (lit ''tr'') [] [text_tag ''td'' ''Date'']"

definition dangling_row :: node where
  "dangling_row = Tag (lit ''tr'') []
     [text_tag ''td'' ''2023-01-04'',
      Tag (lit ''td'') []
        [text_tag ''strong'' ''Type:'', NavigableString (lit ''x''), text_tag ''strong'' ''Ref:'']]"

text \<open>A last page of the German listing: one row, no forward item.\<close>

definition german_last_page :: node where
  "german_last_page = document [Tag (lit ''table'') [] [plain_row]]"

text \<open>Two pages of the Dutch listing: two warnings and a next link, then one warning.\<close>

definition publication :: "string \<Rightarrow> string \<Rightarrow> string \<Rightarrow> node" where
  "publication title warning meta =
     Tag (lit ''a'') [(lit ''class'', lit ''publication''), (lit ''href'', lit ''/doc'')]
       [text_tag ''h3'' title, text_tag ''p'' warning,
        Tag (lit ''p'') [(lit ''class'', lit ''meta'')] [NavigableString (lit meta)]]"

definition dutch_page_1 :: node where
  "dutch_page_1 = document
     [publication ''Recall A'' ''text A'' ''Published | 2023-01-01'',
      publication ''Recall B'' ''text B'' ''Published | 2023-01-02'',
      Tag (lit ''li'') [(lit ''class'', lit ''paging__unit paging__unit--next'')]
        [Tag (lit ''a'') [(lit ''href'', lit ''http://h/2'')] [NavigableString (lit ''Next'')]]]"

definition dutch_page_2 :: node where
  "dutch_page_2 = document [publication ''Recall C'' ''text C'' ''Published | 2023-01-03'']"

text \<open>A Dutch page whose second warning has no heading, and which has a next link.\<close>

definition dutch_broken_page :: node where
  "dutch_broken_page = document
     [publication ''Recall A'' ''text A'' ''Published | 2023-01-01'',
      Tag (lit ''a'') [(lit ''class'', lit ''publication'')]
        [text_tag ''p'' ''text B'',
         Tag (lit ''p'') [(lit ''class'', lit ''meta'')] [NavigableString (lit ''2023-01-02'')]],
      Tag (lit ''li'') [(lit ''class'', lit ''paging__unit paging__unit--next'')]
        [Tag (lit ''a'') [(lit ''href'', lit ''http://h/2'')] [NavigableString (lit ''Next'')]]]"

text \<open>A first page of the German listing, with a forward item.\<close>

definition german_page_1 :: node where
  "german_page_1 = document
     [Tag (lit ''table'') [] [one_cell_row, full_row],
      Tag (lit ''li'') [(lit ''class'', lit ''c-navindex__item is-forward'')]
        [Tag (lit ''a'') [(lit ''href'', lit ''http://h/2'')] [NavigableString (lit ''Next'')]]]"

text \<open>Two pages for the Italian script.\<close>

definition italy_table :: "node list \<Rightarrow> node" where
  "italy_table rows =
     Tag (lit ''table'') [(lit ''class'', lit ''some_class'')]
       (Tag (lit ''tr'') [] [text_tag ''th'' ''Name''] # rows)"

definition italy_page_1 :: node where
  "italy_page_1 = document
     [italy_table [Tag (lit ''tr'') [] [text_tag ''td'' '' Pump '']],
      Tag (lit ''a'') [(lit ''title'', lit ''Next Page''), (lit ''href'', lit ''http://h/2'')]
        [NavigableString (lit ''Next'')]]"

definition italy_page_2 :: node where
  "italy_page_2 = document [italy_table [Tag (lit ''tr'') [] [text_tag ''td'' ''Stent'']]]"

text \<open>An Italian page whose table has a row without cells after a data row.\<close>

definition italy_broken_page :: node where
  "italy_broken_page = document
     [italy_table [Tag (lit ''tr'') [] [text_tag ''td'' ''Pump''],
                   Tag (lit ''tr'') [] [text_tag ''th'' ''Total'']]]"

text \<open>A web of two pages, every other URL failing, and a web that serves one page.\<close>

definition two_pages :: "node \<Rightarrow> node \<Rightarrow> web" where
  "two_pages p1 p2 url =
     (if url = lit ''http://h/1'' then Inr (Response 200 p1)
      else if url = lit ''http://h/2'' then Inr (Response 200 p2)
      else Inl RequestException)"

definition serve :: "nat \<Rightarrow> node \<Rightarrow> web" where
  "serve status page url = Inr (Response status page)"

text \<open>The body that comes with a status 404.\<close>

definition not_found_page :: node where
  "not_found_page = document [text_tag ''h1'' ''404 Not Found'']"

text \<open>
  Rows of the German table in which a comment follows the first bold element, and in
  which a tag with a \<open>strip\<close> element follows it.
\<close>

definition comment_row :: node where
  "comment_row = Tag (lit ''tr'') []
     [text_tag ''td'' ''2023-01-05'',
      Tag (lit ''td'') []
        [text_tag ''strong'' ''Type:'', Comment (lit '' c ''), NavigableString (lit '' infusion ''),
         text_tag ''strong'' ''Ref:'', NavigableString (lit '' 123 '')]]"

definition strip_tag_row :: node where
  "strip_tag_row = Tag (lit ''tr'') []
     [text_tag ''td'' ''2023-01-06'',
      Tag (lit ''td'') []
        [text_tag ''strong'' ''Type:'',
         Tag (lit ''span'') [] [Tag (lit ''strip'') [] [text_tag ''b'' ''x'']],
         text_tag ''strong'' ''Ref:'', NavigableString (lit '' 123 '')]]"

section \<open>Evaluation and helper lemmas\<close>

lemmas fixture_defs = document_def text_tag_def full_row_def plain_row_def one_cell_row_def
  dangling_row_def german_last_page_def publication_def dutch_page_1_def dutch_page_2_def
  german_page_1_def italy_table_def italy_page_1_def italy_page_2_def two_pages_def
  dutch_broken_page_def italy_broken_page_def serve_def not_found_page_def comment_row_def
  strip_tag_row_def

lemmas eval_defs = find_tag_def find_all_def lit_def py_strip_def py_isspace_def Let_def
  has_class_def has_attr_def

lemma german_row_short:
  "length (find_all (has_name (lit ''td'')) tr) < 2 \<Longrightarrow> german_row tr = Inr None"
  by (simp add: german_row_def)

lemma full_row_eval:
  "german_row full_row =
     Inr (Some [(lit ''date'', Str (lit ''2023-01-02'')), (lit ''device'', Str (lit ''Pump'')),
                (lit ''device_type'', Str (lit ''infusion'')), (lit ''device_reference'', Str (lit ''123''))])"
  by (simp add: german_row_def fixture_defs eval_defs)

lemma plain_row_eval:
  "german_row plain_row =
     Inr (Some [(lit ''date'', Str (lit ''2023-01-03'')), (lit ''device'', Str (lit ''N/A'')),
                (lit ''device_type'', Str (lit ''N/A'')), (lit ''device_reference'', Str (lit ''N/A''))])"
  by (simp add: german_row_def fixture_defs eval_defs)

lemma one_cell_row_tds: "length (find_all (has_name (lit ''td'')) one_cell_row) = 1"
  by (simp add: fixture_defs eval_defs)

section \<open>The next link\<close>

lemma german_next_no_item:
  "find_tag (\<lambda>n. has_name (lit ''li'') n \<and> has_class (lit ''c-navindex__item is-forward'') n) soup = None
     \<Longrightarrow> german_next soup = Inl AttributeError"
  by (simp add: german_next_def)

lemma dutch_next_no_item:
  "find_tag (\<lambda>n. has_name (lit ''li'') n \<and> has_class (lit ''paging__unit paging__unit--next'') n) soup = None
     \<Longrightarrow> dutch_next soup = None"
  by (simp add: dutch_next_def)

lemma get_next_page_no_anchor:
  "find_tag (\<lambda>n. has_name (lit ''a'') n \<and> has_attr (lit ''title'') (lit ''Next Page'') n) soup = None
     \<Longrightarrow> get_next_page soup = None"
  by (simp add: get_next_page_def)

text \<open>
  C1. The resolver gives the href of the next-page element, or \<open>None\<close> when the element
  is missing or has no link, and fails in neither case. The Dutch and the Italian
  resolver do so (\<open>dutch_next\<close> and \<open>get_next_page\<close> have no error result). The German
  one does not: on a page without the forward item, \<open>soup.find(...)\<close> is \<open>None\<close> and
  \<open>.find('a')\<close> on it raises \<open>AttributeError\<close>, which leaves \<open>get_data_page\<close> although
  the rows of the page were read. The page below has one row and no forward item.
\<close>

theorem german_next_missing_item:
  "german_next german_last_page = Inl AttributeError \<and>
   german_extract german_last_page =
     Inr [[(lit ''date'', Str (lit ''2023-01-03'')), (lit ''device'', Str (lit ''N/A'')),
           (lit ''device_type'', Str (lit ''N/A'')), (lit ''device_reference'', Str (lit ''N/A''))]] \<and>
   german_get_data_page (serve 200 german_last_page) (lit ''http://h/2'') [] =
     (Inl AttributeError, [lit ''http://h/2'']) \<and>
   dutch_next german_last_page = None \<and>
   get_next_page german_last_page = None"
  by (simp add: german_next_def german_extract_def german_get_data_page_def german_page_def
      session_get_def dutch_next_def get_next_page_def german_row_def fixture_defs eval_defs)

section \<open>Transport failures\<close>

text \<open>
  C4, as stated: a transport failure, which the specification takes to include a
  response with an error status, is passed on by two variants and swallowed by one.
  No script looks at the status, so a response with status 404 is read like any page.
  On the body below the Italian \<open>get_page\<close> returns the parsed page, and the iteration
  gives an empty list and no next URL: nothing is passed on, and the Italian variant,
  too, takes the failed fetch for the end of the data.
\<close>

theorem error_status_not_propagated:
  "get_page (serve 404 not_found_page) (lit ''http://h/'') [] =
     (Inr not_found_page, [lit ''http://h/'']) \<and>
   italy_page (serve 404 not_found_page) (lit ''http://h/'') [] =
     (Inr ([], None), [lit ''http://h/''])"
  by (simp add: italy_page_def get_page_def session_get_def scrape_page_def get_next_page_def
      fixture_defs eval_defs)

text \<open>
  C4, amended. When the GET raises, the Dutch \<open>get_data_page\<close> swallows the exception
  and returns an empty record list with no next URL; the German \<open>get_data_page\<close> and the
  Italian \<open>get_page\<close> (and with it the iteration of \<open>main\<close>) pass the exception on.
  When a response arrives, its status plays no part in any variant: the body is parsed
  and read as the page. In all cases the request was made once.
\<close>

theorem transport_failure:
  "(w url = Inl e \<longrightarrow>
      dutch_get_data_page w url log = (([], None), log @ [url]) \<and>
      german_get_data_page w url log = (Inl e, log @ [url]) \<and>
      get_page w url log = (Inl e, log @ [url]) \<and>
      italy_page w url log = (Inl e, log @ [url])) \<and>
   (w url = Inr (Response status soup) \<longrightarrow>
      dutch_get_data_page w url log =
        (case dutch_page soup of Inl e \<Rightarrow> ([], None) | Inr r \<Rightarrow> r, log @ [url]) \<and>
      german_get_data_page w url log = (german_page soup, log @ [url]) \<and>
      get_page w url log = (Inr soup, log @ [url]) \<and>
      italy_page w url log =
        (case scrape_page soup of
           Inl e \<Rightarrow> Inl e
         | Inr data \<Rightarrow> Inr (data, get_next_page soup), log @ [url]))"
  by (simp add: dutch_get_data_page_def dutch_try_def german_get_data_page_def
      get_page_def italy_page_def session_get_def split: sum.splits)

theorem transport_failure_witness:
  "(dutch_get_data_page (\<lambda>u. Inl RequestException) (lit ''http://h/'') [] =
      (([], None), [lit ''http://h/'']) \<and>
    german_get_data_page (\<lambda>u. Inl RequestException) (lit ''http://h/'') [] =
      (Inl RequestException, [lit ''http://h/'']) \<and>
    get_page (\<lambda>u. Inl RequestException) (lit ''http://h/'') [] =
      (Inl RequestException, [lit ''http://h/'']) \<and>
    italy_page (\<lambda>u. Inl RequestException) (lit ''http://h/'') [] =
      (Inl RequestException, [lit ''http://h/''])) \<and>
   (dutch_get_data_page (serve 404 not_found_page) (lit ''http://h/'') [] =
      (([], None), [lit ''http://h/'']) \<and>
    german_get_data_page (serve 404 not_found_page) (lit ''http://h/'') [] =
      (Inl AttributeError, [lit ''http://h/'']) \<and>
    get_page (serve 404 not_found_page) (lit ''http://h/'') [] =
      (Inr not_found_page, [lit ''http://h/'']) \<and>
    italy_page (serve 404 not_found_page) (lit ''http://h/'') [] =
      (Inr ([], None), [lit ''http://h/'']))"
proof -
  have pages: "dutch_page not_found_page = Inr ([], None)"
    "german_page not_found_page = Inl AttributeError"
    "scrape_page not_found_page = Inr []" "get_next_page not_found_page = None"
    by (simp_all add: dutch_page_def dutch_extract_def dutch_next_def german_page_def
        german_extract_def german_next_def scrape_page_def get_next_page_def
        fixture_defs eval_defs)
  have a: "(\<lambda>u. Inl RequestException) (lit ''http://h/'') = (Inl RequestException :: error + response)"
    by simp
  have b: "serve 404 not_found_page (lit ''http://h/'') = Inr (Response 404 not_found_page)"
    by (simp add: serve_def)
  from transport_failure [of "\<lambda>u. Inl RequestException" "lit ''http://h/''" RequestException "[]"] a
    transport_failure [of "serve 404 not_found_page" "lit ''http://h/''" _ "[]" 404 not_found_page] b
  show ?thesis
    by (simp add: pages)
qed

section \<open>The extractors\<close>

text \<open>
  C6. A table row with fewer than two cells is excluded from the output of the German
  extractor: wherever it stands among the rows, the loop gives what it gives without it.
\<close>

theorem german_short_row_excluded:
  "length (find_all (has_name (lit ''td'')) tr) < 2 \<Longrightarrow>
     german_rows (pre @ tr # post) data_list = german_rows (pre @ post) data_list"
proof (induction pre arbitrary: data_list)
  case Nil
  then show ?case by (simp add: german_row_short)
next
  case (Cons a pre)
  then show ?case by (simp split: sum.splits option.splits)
qed

theorem german_short_row_excluded_witness:
  "length (find_all (has_name (lit ''td'')) one_cell_row) < 2 \<and>
   german_rows ([full_row] @ one_cell_row # [plain_row]) [] =
     Inr [[(lit ''date'', Str (lit ''2023-01-02'')), (lit ''device'', Str (lit ''Pump'')),
           (lit ''device_type'', Str (lit ''infusion'')), (lit ''device_reference'', Str (lit ''123''))],
          [(lit ''date'', Str (lit ''2023-01-03'')), (lit ''device'', Str (lit ''N/A'')),
           (lit ''device_type'', Str (lit ''N/A'')), (lit ''device_reference'', Str (lit ''N/A''))]]"
  using german_short_row_excluded [of one_cell_row "[full_row]" "[plain_row]" "[]"]
  by (simp add: one_cell_row_tds full_row_eval plain_row_eval)







text \<open>
  What the German extractor does when no text node follows a bold element. A comment is
  a string: its content is taken, and the text after it is not. A tag with a \<open>strip\<close>
  element gives the list of the tags below that element. Nothing, or another tag,
  raises.
\<close>

lemma german_row_other_siblings:
  "german_row comment_row =
     Inr (Some [(lit ''date'', Str (lit ''2023-01-05'')), (lit ''device'', Str (lit ''N/A'')),
                (lit ''device_type'', Str (lit ''c'')), (lit ''device_reference'', Str (lit ''123''))])"
  "german_row strip_tag_row =
     Inr (Some [(lit ''date'', Str (lit ''2023-01-06'')), (lit ''device'', Str (lit ''N/A'')),
                (lit ''device_type'', ResultSet [text_tag ''b'' ''x'']),
                (lit ''device_reference'', Str (lit ''123''))])"
  "german_row dangling_row = Inl AttributeError"
  "german_row (Tag (lit ''tr'') []
     [text_tag ''td'' ''d'',
      Tag (lit ''td'') []
        [text_tag ''strong'' ''Type:'', Tag (lit ''br'') [] [], text_tag ''strong'' ''Ref:'',
         NavigableString (lit ''x'')]]) = Inl TypeError"
  by (simp_all add: german_row_def fixture_defs eval_defs)



text \<open>
  C7. On a page with no element of the repeating pattern each extractor returns the empty
  list and does not fail: no anchor of class \<open>publication\<close> (Dutch), no table row
  (German), no table of the configured class or no row after its header row (Italian).
\<close>

theorem no_matching_elements:
  "(find_all (\<lambda>n. has_name (lit ''a'') n \<and> has_class (lit ''publication'') n) soup = []
      \<longrightarrow> dutch_extract soup = Inr []) \<and>
   (find_all (has_name (lit ''tr'')) soup = [] \<longrightarrow> german_extract soup = Inr []) \<and>
   ((case find_tag (\<lambda>n. has_name (lit ''table'') n \<and> has_class (lit ''some_class'') n) soup of
       None \<Rightarrow> True
     | Some table \<Rightarrow> length (find_all (has_name (lit ''tr'')) (fst table)) \<le> 1)
      \<longrightarrow> scrape_page soup = Inr [])"
  by (auto simp: dutch_extract_def german_extract_def scrape_page_def split: option.splits)

theorem no_matching_elements_witness:
  "find_all (\<lambda>n. has_name (lit ''a'') n \<and> has_class (lit ''publication'') n)
     (document [text_tag ''p'' ''nothing'']) = [] \<and>
   dutch_extract (document [text_tag ''p'' ''nothing'']) = Inr [] \<and>
   find_all (has_name (lit ''tr'')) (document [text_tag ''p'' ''nothing'']) = [] \<and>
   german_extract (document [text_tag ''p'' ''nothing'']) = Inr [] \<and>
   find_tag (\<lambda>n. has_name (lit ''table'') n \<and> has_class (lit ''some_class'') n)
     (document [text_tag ''p'' ''nothing'']) = None \<and>
   scrape_page (document [text_tag ''p'' ''nothing'']) = Inr [] \<and>
   scrape_page (document [Tag (lit ''table'') [(lit ''class'', lit ''some_class'')]
                            [Tag (lit ''tr'') [] [text_tag ''th'' ''Name'']]]) = Inr []"
proof -
  have a: "find_all (\<lambda>n. has_name (lit ''a'') n \<and> has_class (lit ''publication'') n)
             (document [text_tag ''p'' ''nothing'']) = []"
    by (simp add: fixture_defs eval_defs)
  have b: "find_all (has_name (lit ''tr'')) (document [text_tag ''p'' ''nothing'']) = []"
    by (simp add: fixture_defs eval_defs)
  have c: "find_tag (\<lambda>n. has_name (lit ''table'') n \<and> has_class (lit ''some_class'') n)
             (document [text_tag ''p'' ''nothing'']) = None"
    by (simp add: fixture_defs eval_defs)
  have d: "(case find_tag (\<lambda>n. has_name (lit ''table'') n \<and> has_class (lit ''some_class'') n)
              (document [Tag (lit ''table'') [(lit ''class'', lit ''some_class'')]
                            [Tag (lit ''tr'') [] [text_tag ''th'' ''Name'']]]) of
             None \<Rightarrow> True
           | Some table \<Rightarrow> length (find_all (has_name (lit ''tr'')) (fst table)) \<le> 1)"
    by (simp add: fixture_defs eval_defs)
  show ?thesis
    using a b c d no_matching_elements [of "document [text_tag ''p'' ''nothing'']"]
      no_matching_elements [of "document [Tag (lit ''table'') [(lit ''class'', lit ''some_class'')]
                            [Tag (lit ''tr'') [] [text_tag ''th'' ''Name'']]]"]
    by simp
qed

lemma dutch_link_Inl:
  "(\<exists>e. dutch_link link = Inl e) \<longleftrightarrow>
     find_tag (has_name (lit ''h3'')) link = None \<or>
     find_tag (has_name (lit ''p'')) link = None \<or>
     find_tag (\<lambda>n. has_name (lit ''p'') n \<and> has_class (lit ''meta'') n) link = None"
  by (auto simp: dutch_link_def split: option.splits)

lemma dutch_link_error: "dutch_link link = Inl e \<Longrightarrow> e = AttributeError"
  by (auto simp: dutch_link_def split: option.splits)

lemma dutch_links_fail:
  "\<exists>l\<in>set links. \<exists>e. dutch_link l = Inl e \<Longrightarrow> dutch_links links acc = Inl AttributeError"
proof (induction links arbitrary: acc)
  case Nil
  then show ?case by simp
next
  case (Cons l links)
  then show ?case
    by (cases "dutch_link l") (auto dest: dutch_link_error)
qed

lemma dutch_links_ok:
  "\<forall>l\<in>set links. \<exists>r. dutch_link l = Inr r \<Longrightarrow>
     \<exists>recs. dutch_links links acc = Inr (acc @ recs) \<and> length recs = length links"
proof (induction links arbitrary: acc)
  case Nil
  then show ?case by simp
next
  case (Cons l links)
  then obtain r where r: "dutch_link l = Inr r" by auto
  from Cons obtain recs where "dutch_links links (acc @ [r]) = Inr ((acc @ [r]) @ recs)"
    "length recs = length links"
    by fastforce
  with r show ?case by (intro exI [of _ "r # recs"]) simp
qed

lemma scrape_row_Inl:
  "scrape_row row = Inl e \<longleftrightarrow> find_all (has_name (lit ''td'')) row = [] \<and> e = IndexError"
  by (auto simp: scrape_row_def split: list.splits)

lemma scrape_rows_fail:
  "\<exists>row\<in>set rows. find_all (has_name (lit ''td'')) row = [] \<Longrightarrow>
     scrape_rows rows acc = Inl IndexError"
proof (induction rows arbitrary: acc)
  case Nil
  then show ?case by simp
next
  case (Cons row rows)
  show ?case
  proof (cases "find_all (has_name (lit ''td'')) row = []")
    case True
    then have "scrape_row row = Inl IndexError" by (simp add: scrape_row_def)
    then show ?thesis by simp
  next
    case False
    with Cons.prems have "\<exists>row\<in>set rows. find_all (has_name (lit ''td'')) row = []" by auto
    then have ih: "scrape_rows rows acc' = Inl IndexError" for acc' by (rule Cons.IH)
    from False obtain r where "scrape_row row = Inr r"
      by (cases "scrape_row row") (auto simp: scrape_row_Inl)
    then show ?thesis by (simp add: ih)
  qed
qed

lemma scrape_rows_ok:
  "\<forall>row\<in>set rows. find_all (has_name (lit ''td'')) row \<noteq> [] \<Longrightarrow>
     \<exists>recs. scrape_rows rows acc = Inr (acc @ recs) \<and> length recs = length rows"
proof (induction rows arbitrary: acc)
  case Nil
  then show ?case by simp
next
  case (Cons row rows)
  then obtain r where r: "scrape_row row = Inr r"
    by (cases "scrape_row row") (auto simp: scrape_row_Inl)
  from Cons obtain recs where "scrape_rows rows (acc @ [r]) = Inr ((acc @ [r]) @ recs)"
    "length recs = length rows"
    by fastforce
  with r show ?case by (intro exI [of _ "r # recs"]) simp
qed

lemma broken_pages_eval:
  "dutch_extract dutch_broken_page = Inl AttributeError"
  "dutch_get_data_page (serve 200 dutch_broken_page) (lit ''http://h/1'') [] =
     (([], None), [lit ''http://h/1''])"
  "dutch_next dutch_broken_page = Some (lit ''http://h/2'')"
  "scrape_page italy_broken_page = Inl IndexError"
  "german_row dangling_row = Inl AttributeError"
  by (simp_all add: dutch_get_data_page_def dutch_try_def dutch_page_def session_get_def
      dutch_extract_def dutch_link_def dutch_next_def scrape_page_def scrape_row_def
      german_row_def remove_surrogates_def utf8_encode_surrogatepass_def encode_char_def
      is_cont_def fixture_defs eval_defs)

lemma witness_pages_eval:
  "find_all (\<lambda>n. has_name (lit ''a'') n \<and> has_class (lit ''publication'') n) dutch_broken_page =
     [(publication ''Recall A'' ''text A'' ''Published | 2023-01-01'',
       Some (Tag (lit ''a'') [(lit ''class'', lit ''publication'')]
        [text_tag ''p'' ''text B'',
         Tag (lit ''p'') [(lit ''class'', lit ''meta'')] [NavigableString (lit ''2023-01-02'')]])),
      (Tag (lit ''a'') [(lit ''class'', lit ''publication'')]
        [text_tag ''p'' ''text B'',
         Tag (lit ''p'') [(lit ''class'', lit ''meta'')] [NavigableString (lit ''2023-01-02'')]],
       Some (Tag (lit ''li'') [(lit ''class'', lit ''paging__unit paging__unit--next'')]
        [Tag (lit ''a'') [(lit ''href'', lit ''http://h/2'')] [NavigableString (lit ''Next'')]]))]"
  "find_tag (has_name (lit ''h3''))
     (Tag (lit ''a'') [(lit ''class'', lit ''publication'')]
        [text_tag ''p'' ''text B'',
         Tag (lit ''p'') [(lit ''class'', lit ''meta'')] [NavigableString (lit ''2023-01-02'')]]) = None"
  "find_tag (\<lambda>n. has_name (lit ''table'') n \<and> has_class (lit ''some_class'') n) italy_broken_page =
     Some (italy_table [Tag (lit ''tr'') [] [text_tag ''td'' ''Pump''],
                        Tag (lit ''tr'') [] [text_tag ''th'' ''Total'']], None)"
  "find_all (has_name (lit ''tr''))
     (italy_table [Tag (lit ''tr'') [] [text_tag ''td'' ''Pump''],
                   Tag (lit ''tr'') [] [text_tag ''th'' ''Total'']]) =
     [(Tag (lit ''tr'') [] [text_tag ''th'' ''Name''], Some (Tag (lit ''tr'') [] [text_tag ''td'' ''Pump''])),
      (Tag (lit ''tr'') [] [text_tag ''td'' ''Pump''], Some (Tag (lit ''tr'') [] [text_tag ''th'' ''Total''])),
      (Tag (lit ''tr'') [] [text_tag ''th'' ''Total''], None)]"
  "find_all (has_name (lit ''td'')) (Tag (lit ''tr'') [] [text_tag ''th'' ''Total'']) = []"
  by (simp_all add: fixture_defs eval_defs)

text \<open>
  C2, as stated: no extractor raises when an optional part of a matched element is
  missing; it puts \<open>N/A\<close> or skips the row. The Dutch and the Italian extractor have
  no such provision. On the Dutch page below the second warning has no \<open>h3\<close>:
  \<open>link.find('h3').text\<close> raises \<open>AttributeError\<close>, and the handler of \<open>get_data_page\<close>
  returns no record and no next URL for the page, although its first warning is complete
  and it has a next link. On the Italian page a row after the header has no \<open>td\<close>:
  \<open>cols[0]\<close> raises \<open>IndexError\<close>, which leaves \<open>scrape_page\<close>.
\<close>

theorem extractor_raises:
  "dutch_extract dutch_broken_page = Inl AttributeError \<and>
   dutch_get_data_page (serve 200 dutch_broken_page) (lit ''http://h/1'') [] =
     (([], None), [lit ''http://h/1'']) \<and>
   scrape_page italy_broken_page = Inl IndexError"
  by (simp add: broken_pages_eval)

text \<open>
  C2, amended. The German extractor skips a row with fewer than two cells, and for a row
  with at least two cells and fewer than two \<open>strong\<close> elements in the second one it
  produces the record, with \<open>N/A\<close> for the device when the cell has no anchor and \<open>N/A\<close>
  for device\_type and device\_reference. The Dutch extractor raises \<open>AttributeError\<close>
  when a matched anchor has no \<open>h3\<close>, no \<open>p\<close> or no \<open>p\<close> of class \<open>meta\<close>, and
  \<open>get_data_page\<close> then returns the empty list and no next URL; when every matched
  anchor has the three, it gives one record per anchor. The Italian extractor raises
  \<open>IndexError\<close> when a row after the header row has no \<open>td\<close>, and gives one record
  per such row when each has one.
\<close>

theorem extractor_missing_elements:
  "(length (find_all (has_name (lit ''td'')) tr) < 2 \<longrightarrow> german_row tr = Inr None) \<and>
   (2 \<le> length (find_all (has_name (lit ''td'')) tr) \<and>
    length (find_all (has_name (lit ''strong'')) (fst (find_all (has_name (lit ''td'')) tr ! 1))) < 2
      \<longrightarrow> german_row tr =
            Inr (Some [(lit ''date'', Str (py_strip (get_text (fst (find_all (has_name (lit ''td'')) tr ! 0))))),
                       (lit ''device'',
                          case find_tag (has_name (lit ''a'')) (fst (find_all (has_name (lit ''td'')) tr ! 1)) of
                            Some l \<Rightarrow> Str (py_strip (get_text (fst l)))
                          | None \<Rightarrow> Str (lit ''N/A'')),
                       (lit ''device_type'', Str (lit ''N/A'')),
                       (lit ''device_reference'', Str (lit ''N/A''))])) \<and>
   (w url = Inr (Response status soup) \<and>
    (\<exists>link\<in>set (find_all (\<lambda>n. has_name (lit ''a'') n \<and> has_class (lit ''publication'') n) soup).
        find_tag (has_name (lit ''h3'')) (fst link) = None \<or>
        find_tag (has_name (lit ''p'')) (fst link) = None \<or>
        find_tag (\<lambda>n. has_name (lit ''p'') n \<and> has_class (lit ''meta'') n) (fst link) = None)
      \<longrightarrow> dutch_extract soup = Inl AttributeError \<and>
          dutch_get_data_page w url log = (([], None), log @ [url])) \<and>
   ((\<forall>link\<in>set (find_all (\<lambda>n. has_name (lit ''a'') n \<and> has_class (lit ''publication'') n) soup).
        find_tag (has_name (lit ''h3'')) (fst link) \<noteq> None \<and>
        find_tag (has_name (lit ''p'')) (fst link) \<noteq> None \<and>
        find_tag (\<lambda>n. has_name (lit ''p'') n \<and> has_class (lit ''meta'') n) (fst link) \<noteq> None)
      \<longrightarrow> (\<exists>recs. dutch_extract soup = Inr recs \<and>
                  length recs =
                    length (find_all (\<lambda>n. has_name (lit ''a'') n \<and> has_class (lit ''publication'') n) soup))) \<and>
   (find_tag (\<lambda>n. has_name (lit ''table'') n \<and> has_class (lit ''some_class'') n) page = Some table \<and>
    (\<exists>row\<in>set (drop 1 (find_all (has_name (lit ''tr'')) (fst table))).
        find_all (has_name (lit ''td'')) (fst row) = [])
      \<longrightarrow> scrape_page page = Inl IndexError) \<and>
   (find_tag (\<lambda>n. has_name (lit ''table'') n \<and> has_class (lit ''some_class'') n) page = Some table \<and>
    (\<forall>row\<in>set (drop 1 (find_all (has_name (lit ''tr'')) (fst table))).
        find_all (has_name (lit ''td'')) (fst row) \<noteq> [])
      \<longrightarrow> (\<exists>recs. scrape_page page = Inr recs \<and>
                  length recs = length (drop 1 (find_all (has_name (lit ''tr'')) (fst table)))))"
proof -
  let ?tds = "find_all (has_name (lit ''td'')) tr"
  let ?links = "find_all (\<lambda>n. has_name (lit ''a'') n \<and> has_class (lit ''publication'') n) soup"
  let ?bad = "\<lambda>link. find_tag (has_name (lit ''h3'')) (fst link) = None \<or>
        find_tag (has_name (lit ''p'')) (fst link) = None \<or>
        find_tag (\<lambda>n. has_name (lit ''p'') n \<and> has_class (lit ''meta'') n) (fst link) = None"
  let ?good = "\<lambda>link. find_tag (has_name (lit ''h3'')) (fst link) \<noteq> None \<and>
        find_tag (has_name (lit ''p'')) (fst link) \<noteq> None \<and>
        find_tag (\<lambda>n. has_name (lit ''p'') n \<and> has_class (lit ''meta'') n) (fst link) \<noteq> None"
  let ?table = "find_tag (\<lambda>n. has_name (lit ''table'') n \<and> has_class (lit ''some_class'') n) page"
  let ?rows = "drop 1 (find_all (has_name (lit ''tr'')) (fst table))"
  have g1: "length ?tds < 2 \<longrightarrow> german_row tr = Inr None"
    by (simp add: german_row_short)
  have g2: "2 \<le> length ?tds \<and>
      length (find_all (has_name (lit ''strong'')) (fst (?tds ! 1))) < 2
      \<longrightarrow> german_row tr =
            Inr (Some [(lit ''date'', Str (py_strip (get_text (fst (?tds ! 0))))),
                       (lit ''device'',
                          case find_tag (has_name (lit ''a'')) (fst (?tds ! 1)) of
                            Some l \<Rightarrow> Str (py_strip (get_text (fst l)))
                          | None \<Rightarrow> Str (lit ''N/A'')),
                       (lit ''device_type'', Str (lit ''N/A'')),
                       (lit ''device_reference'', Str (lit ''N/A''))])"
    by (auto simp: german_row_def Let_def split: option.splits)
  have d1: "w url = Inr (Response status soup) \<and> (\<exists>link\<in>set ?links. ?bad link)
      \<longrightarrow> dutch_extract soup = Inl AttributeError \<and>
          dutch_get_data_page w url log = (([], None), log @ [url])"
  proof (rule impI)
    assume h: "w url = Inr (Response status soup) \<and> (\<exists>link\<in>set ?links. ?bad link)"
    then have "\<exists>l\<in>set (map fst ?links). \<exists>e. dutch_link l = Inl e"
      by (simp add: dutch_link_Inl)
    then have e: "dutch_extract soup = Inl AttributeError"
      unfolding dutch_extract_def by (rule dutch_links_fail)
    with h show "dutch_extract soup = Inl AttributeError \<and>
          dutch_get_data_page w url log = (([], None), log @ [url])"
      by (simp add: dutch_get_data_page_def dutch_try_def dutch_page_def session_get_def)
  qed
  have d2: "(\<forall>link\<in>set ?links. ?good link)
      \<longrightarrow> (\<exists>recs. dutch_extract soup = Inr recs \<and> length recs = length ?links)"
  proof (rule impI)
    assume h: "\<forall>link\<in>set ?links. ?good link"
    have "\<forall>l\<in>set (map fst ?links). \<exists>r. dutch_link l = Inr r"
    proof
      fix l assume "l \<in> set (map fst ?links)"
      with h have "\<not> (\<exists>e. dutch_link l = Inl e)"
        unfolding dutch_link_Inl by auto
      then show "\<exists>r. dutch_link l = Inr r" by (cases "dutch_link l") auto
    qed
    from dutch_links_ok [OF this, of "[]"]
    show "\<exists>recs. dutch_extract soup = Inr recs \<and> length recs = length ?links"
      by (simp add: dutch_extract_def)
  qed
  have i1: "?table = Some table \<and>
      (\<exists>row\<in>set ?rows. find_all (has_name (lit ''td'')) (fst row) = [])
      \<longrightarrow> scrape_page page = Inl IndexError"
  proof (rule impI)
    assume h: "?table = Some table \<and>
      (\<exists>row\<in>set ?rows. find_all (has_name (lit ''td'')) (fst row) = [])"
    then have "\<exists>row\<in>set (drop 1 (map fst (find_all (has_name (lit ''tr'')) (fst table)))).
                 find_all (has_name (lit ''td'')) row = []"
      by (simp add: drop_map)
    then have "scrape_rows (drop 1 (map fst (find_all (has_name (lit ''tr'')) (fst table)))) [] =
                 Inl IndexError"
      by (rule scrape_rows_fail)
    with h show "scrape_page page = Inl IndexError"
      by (simp add: scrape_page_def)
  qed
  have i2: "?table = Some table \<and>
      (\<forall>row\<in>set ?rows. find_all (has_name (lit ''td'')) (fst row) \<noteq> [])
      \<longrightarrow> (\<exists>recs. scrape_page page = Inr recs \<and> length recs = length ?rows)"
  proof (rule impI)
    assume h: "?table = Some table \<and>
      (\<forall>row\<in>set ?rows. find_all (has_name (lit ''td'')) (fst row) \<noteq> [])"
    then have "\<forall>row\<in>set (drop 1 (map fst (find_all (has_name (lit ''tr'')) (fst table)))).
                 find_all (has_name (lit ''td'')) row \<noteq> []"
      by (simp add: drop_map)
    from scrape_rows_ok [OF this, of "[]"] h
    show "\<exists>recs. scrape_page page = Inr recs \<and> length recs = length ?rows"
      by (simp add: scrape_page_def)
  qed
  from g1 g2 d1 d2 i1 i2 show ?thesis
    by (intro conjI)
qed


theorem extractor_missing_elements_witness:
  "(length (find_all (has_name (lit ''td'')) one_cell_row) < 2 \<and>
    german_row one_cell_row = Inr None \<and>
    dutch_extract dutch_broken_page = Inl AttributeError \<and>
    dutch_get_data_page (serve 200 dutch_broken_page) (lit ''http://h/1'') [] =
      (([], None), [lit ''http://h/1'']) \<and>
    scrape_page italy_broken_page = Inl IndexError) \<and>
   (german_row plain_row =
      Inr (Some [(lit ''date'', Str (lit ''2023-01-03'')), (lit ''device'', Str (lit ''N/A'')),
                 (lit ''device_type'', Str (lit ''N/A'')), (lit ''device_reference'', Str (lit ''N/A''))]) \<and>
    (\<exists>recs. dutch_extract dutch_page_2 = Inr recs \<and> length recs = 1) \<and>
    (\<exists>recs. scrape_page italy_page_2 = Inr recs \<and> length recs = 1))"
proof -
  have a: "length (find_all (has_name (lit ''td'')) one_cell_row) < 2 \<and>
    german_row one_cell_row = Inr None \<and>
    dutch_extract dutch_broken_page = Inl AttributeError \<and>
    dutch_get_data_page (serve 200 dutch_broken_page) (lit ''http://h/1'') [] =
      (([], None), [lit ''http://h/1'']) \<and>
    scrape_page italy_broken_page = Inl IndexError"
    using extractor_missing_elements [where tr = one_cell_row and w = "serve 200 dutch_broken_page" and status = 200
        and url = "lit ''http://h/1''" and soup = dutch_broken_page and log = "[]"
        and page = italy_broken_page
        and table = "(italy_table [Tag (lit ''tr'') [] [text_tag ''td'' ''Pump''],
                          Tag (lit ''tr'') [] [text_tag ''th'' ''Total'']], None)"]
    by (simp add: one_cell_row_tds witness_pages_eval serve_def)
  have b: "german_row plain_row =
      Inr (Some [(lit ''date'', Str (lit ''2023-01-03'')), (lit ''device'', Str (lit ''N/A'')),
                 (lit ''device_type'', Str (lit ''N/A'')), (lit ''device_reference'', Str (lit ''N/A''))]) \<and>
    (\<exists>recs. dutch_extract dutch_page_2 = Inr recs \<and> length recs = 1) \<and>
    (\<exists>recs. scrape_page italy_page_2 = Inr recs \<and> length recs = 1)"
    using extractor_missing_elements [where tr = plain_row and w = "serve 200 dutch_page_2" and status = 200
        and url = "lit ''http://h/2''" and soup = dutch_page_2 and log = "[]"
        and page = italy_page_2
        and table = "(italy_table [Tag (lit ''tr'') [] [text_tag ''td'' ''Stent'']], None)"]
    by (simp add: fixture_defs eval_defs)
  from a b show ?thesis by (rule conjI)
qed

section \<open>The crawl loop\<close>

lemma get_data_loop_chain:
  assumes page: "\<And>u l. page u l = (res u, l @ [u])"
  shows "us \<noteq> [] \<Longrightarrow> \<forall>u\<in>set us. u \<noteq> [] \<Longrightarrow>
     \<forall>i. Suc i < length us \<longrightarrow> (\<exists>d. res (us ! i) = Inr (d, Some (us ! Suc i))) \<Longrightarrow>
     (case res (last us) of Inl e \<Rightarrow> True | Inr (d, n) \<Rightarrow> \<not> truthy n) \<Longrightarrow>
     get_data_loop page (Some (hd us)) acc log =
       Some (case res (last us) of
               Inl e \<Rightarrow> Inl e
             | Inr r \<Rightarrow> Inr (acc @ concat (map (\<lambda>u. records_of (res u)) us)),
             log @ us)"
proof (induction us arbitrary: acc log)
  case Nil
  then show ?case by simp
next
  case (Cons u us)
  show ?case
  proof (cases us)
    case Nil
    with Cons.prems show ?thesis
      by (subst get_data_loop.simps, simp add: page split: sum.splits prod.splits)
         (subst get_data_loop.simps, simp)
  next
    case (Cons u' us')
    from Cons.prems(3) Cons obtain d where d: "res u = Inr (d, Some u')"
      by fastforce
    have step: "\<forall>i. Suc i < length us \<longrightarrow> (\<exists>d. res (us ! i) = Inr (d, Some (us ! Suc i)))"
    proof (intro allI impI)
      fix i assume "Suc i < length us"
      then have "Suc (Suc i) < length (u # us)" by simp
      with Cons.prems(3) have "\<exists>d. res ((u # us) ! Suc i) = Inr (d, Some ((u # us) ! Suc (Suc i)))"
        by blast
      then show "\<exists>d. res (us ! i) = Inr (d, Some (us ! Suc i))" by simp
    qed
    have ih: "get_data_loop page (Some (hd us)) (acc @ d) (log @ [u]) =
       Some (case res (last us) of
               Inl e \<Rightarrow> Inl e
             | Inr r \<Rightarrow> Inr ((acc @ d) @ concat (map (\<lambda>u. records_of (res u)) us)),
             (log @ [u]) @ us)"
      using Cons.prems Cons step by (intro Cons.IH) auto
    from Cons.prems(2) have "u \<noteq> []" by simp
    then show ?thesis
      using d ih Cons by (subst get_data_loop.simps) (simp add: page split: sum.splits)
  qed
qed


lemma german_get_data_page_res:
  "german_get_data_page w u l =
     (case map_sum id soup_of (w u) of Inl e \<Rightarrow> Inl e | Inr soup \<Rightarrow> german_page soup,
      l @ [u])"
  by (simp add: german_get_data_page_def session_get_def split: sum.splits)

lemma italy_page_res:
  "italy_page w u l =
     (case map_sum id soup_of (w u) of Inl e \<Rightarrow> Inl e
      | Inr soup \<Rightarrow> (case scrape_page soup of Inl e \<Rightarrow> Inl e
                     | Inr data \<Rightarrow> Inr (data, get_next_page soup)), l @ [u])"
  by (simp add: italy_page_def get_page_def session_get_def split: sum.splits)


lemma crawl_pages:
  assumes page: "\<And>u l. page u l = (F (w u), l @ [u])"
    and ne: "ps \<noteq> []"
    and served: "\<forall>(u, p)\<in>set ps. u \<noteq> [] \<and> w u = Inr p"
    and link: "\<forall>i. Suc i < length ps \<longrightarrow>
                 (\<exists>d. F (Inr (snd (ps ! i))) = Inr (d, Some (fst (ps ! Suc i))))"
    and stop: "case F (Inr (snd (last ps))) of Inl e \<Rightarrow> True | Inr (d, n) \<Rightarrow> \<not> truthy n"
  shows "get_data_loop page (Some (fst (hd ps))) [] log =
           Some (case F (Inr (snd (last ps))) of
                   Inl e \<Rightarrow> Inl e
                 | Inr r \<Rightarrow> Inr (concat (map (\<lambda>(u, p). records_of (F (Inr p))) ps)),
                 log @ map fst ps)"
proof -
  let ?us = "map fst ps"
  let ?res = "\<lambda>u. F (w u)"
  have w: "w (fst x) = Inr (snd x)" if "x \<in> set ps" for x
    using served that by (cases x) auto
  have a: "?us \<noteq> []" using ne by simp
  have b: "\<forall>u\<in>set ?us. u \<noteq> []" using served by auto
  have c: "\<forall>i. Suc i < length ?us \<longrightarrow> (\<exists>d. ?res (?us ! i) = Inr (d, Some (?us ! Suc i)))"
  proof (intro allI impI)
    fix i assume i: "Suc i < length ?us"
    then have "ps ! i \<in> set ps" by simp
    then have "w (fst (ps ! i)) = Inr (snd (ps ! i))" by (rule w)
    with link i show "\<exists>d. ?res (?us ! i) = Inr (d, Some (?us ! Suc i))" by simp
  qed
  have lst: "?res (last ?us) = F (Inr (snd (last ps)))"
    using ne w [of "last ps"] by (simp add: last_map)
  have d: "case ?res (last ?us) of Inl e \<Rightarrow> True | Inr (d, n) \<Rightarrow> \<not> truthy n"
    using stop lst by simp
  have recs: "map (\<lambda>u. records_of (?res u)) ?us = map (\<lambda>(u, p). records_of (F (Inr p))) ps"
    using w by (auto simp: case_prod_beta)
  have "get_data_loop page (Some (hd ?us)) [] log =
          Some (case ?res (last ?us) of
                  Inl e \<Rightarrow> Inl e
                | Inr r \<Rightarrow> Inr ([] @ concat (map (\<lambda>u. records_of (?res u)) ?us)),
                log @ ?us)"
    by (rule get_data_loop_chain [where res = ?res, OF page a b c d])
  moreover have "hd ?us = fst (hd ps)"
    using ne by (rule hd_map)
  ultimately show ?thesis
    by (simp only: lst recs append_Nil)
qed

lemma dutch_page_fn:
  "(case dutch_get_data_page w u l of (r, log') \<Rightarrow> (Inr r, log')) =
     ((case map_sum id soup_of (w u) of
         Inl e \<Rightarrow> Inr ([], None)
       | Inr soup \<Rightarrow> Inr (records_of (dutch_page soup),
                         case dutch_page soup of Inl e \<Rightarrow> None | Inr r \<Rightarrow> snd r)) ::
        error + (record_t list \<times> pystr option), l @ [u])"
  by (simp add: dutch_get_data_page_def dutch_try_def session_get_def split: sum.splits prod.splits)

lemma dutch_next_absent:
  "(case find_tag (\<lambda>n. has_name (lit ''li'') n \<and> has_class (lit ''paging__unit paging__unit--next'') n) soup of
      None \<Rightarrow> True | Some li \<Rightarrow> find_tag (has_name (lit ''a'')) (fst li) = None)
   \<Longrightarrow> dutch_next soup = None"
  by (auto simp: dutch_next_def split: option.splits)

lemma german_page_absent:
  "(case find_tag (\<lambda>n. has_name (lit ''li'') n \<and> has_class (lit ''c-navindex__item is-forward'') n) soup of
      None \<Rightarrow> True | Some li \<Rightarrow> find_tag (has_name (lit ''a'')) (fst li) = None)
   \<Longrightarrow> (case german_page soup of Inl e \<Rightarrow> True | Inr (d, n) \<Rightarrow> \<not> truthy n)"
  by (simp add: german_page_def german_next_def split: option.splits sum.splits)

lemma dutch_pages_eval:
  "dutch_page dutch_page_1 =
     Inr ([[(lit ''title'', Str (lit ''Recall A'')), (lit ''warning_text'', Str (lit ''text A'')),
            (lit ''date'', Str (lit ''2023-01-01''))],
           [(lit ''title'', Str (lit ''Recall B'')), (lit ''warning_text'', Str (lit ''text B'')),
            (lit ''date'', Str (lit ''2023-01-02''))]], Some (lit ''http://h/2''))"
  "dutch_page dutch_page_2 =
     Inr ([[(lit ''title'', Str (lit ''Recall C'')), (lit ''warning_text'', Str (lit ''text C'')),
            (lit ''date'', Str (lit ''2023-01-03''))]], None)"
  "find_tag (\<lambda>n. has_name (lit ''li'') n \<and>
                         has_class (lit ''paging__unit paging__unit--next'') n) dutch_page_2 = None"
  by (simp_all add: dutch_page_def dutch_extract_def dutch_link_def dutch_next_def
      fixture_defs eval_defs)

lemma german_pages_eval:
  "german_page german_page_1 =
     Inr ([[(lit ''date'', Str (lit ''2023-01-02'')), (lit ''device'', Str (lit ''Pump'')),
            (lit ''device_type'', Str (lit ''infusion'')), (lit ''device_reference'', Str (lit ''123''))]],
          Some (lit ''http://h/2''))"
  "german_page german_last_page = Inl AttributeError"
  "find_tag (\<lambda>n. has_name (lit ''li'') n \<and>
                         has_class (lit ''c-navindex__item is-forward'') n) german_last_page = None"
  by (simp_all add: german_page_def german_extract_def german_row_def german_next_def
      fixture_defs eval_defs)

lemma italy_pages_eval:
  "scrape_page italy_page_1 = Inr [[(lit ''column_1'', Str (lit ''Pump''))]]"
  "get_next_page italy_page_1 = Some (lit ''http://h/2'')"
  "scrape_page italy_page_2 = Inr [[(lit ''column_1'', Str (lit ''Stent''))]]"
  "find_tag (\<lambda>n. has_name (lit ''a'') n \<and> has_attr (lit ''title'') (lit ''Next Page'') n)
     italy_page_2 = None"
  by (simp_all add: scrape_page_def scrape_row_def get_next_page_def remove_surrogates_def
      utf8_encode_surrogatepass_def encode_char_def is_cont_def fixture_defs eval_defs)

lemma two_pages_urls:
  "lit ''http://h/1'' \<noteq> []" "lit ''http://h/2'' \<noteq> []"
  "two_pages p1 p2 (lit ''http://h/1'') = Inr (Response 200 p1)"
  "two_pages p1 p2 (lit ''http://h/2'') = Inr (Response 200 p2)"
  by (simp_all add: two_pages_def lit_def)

text \<open>
  A chain of K pages: every URL of the chain is non-empty and serves its page; for each
  page but the last, reading the page gives a next URL, the URL of the page after it;
  the last page has no anchor in a forward item (Dutch and German script), or no anchor
  titled \<open>Next Page\<close> (Italian script). Then the requests made are exactly the K URLs of
  the chain in order. The Dutch loop returns the records of all pages in page order; so
  do the German and the Italian loop unless reading page K raises, and then the
  exception leaves the loop after the K-th request.
\<close>

lemma get_data_chain:
  assumes ne: "ps \<noteq> []"
    and served: "\<forall>(u, p)\<in>set ps. u \<noteq> [] \<and> (\<exists>status. w u = Inr (Response status p))"
  shows
    "((\<forall>i. Suc i < length ps \<longrightarrow>
          (\<exists>d. dutch_page (snd (ps ! i)) = Inr (d, Some (fst (ps ! Suc i))))) \<and>
      (case find_tag (\<lambda>n. has_name (lit ''li'') n \<and>
                         has_class (lit ''paging__unit paging__unit--next'') n) (snd (last ps)) of
         None \<Rightarrow> True | Some li \<Rightarrow> find_tag (has_name (lit ''a'')) (fst li) = None)
      \<longrightarrow> dutch_get_data w (fst (hd ps)) log =
            Some (Inr (concat (map (\<lambda>(u, p). records_of (dutch_page p)) ps)), log @ map fst ps)) \<and>
     ((\<forall>i. Suc i < length ps \<longrightarrow>
          (\<exists>d. german_page (snd (ps ! i)) = Inr (d, Some (fst (ps ! Suc i))))) \<and>
      (case find_tag (\<lambda>n. has_name (lit ''li'') n \<and>
                         has_class (lit ''c-navindex__item is-forward'') n) (snd (last ps)) of
         None \<Rightarrow> True | Some li \<Rightarrow> find_tag (has_name (lit ''a'')) (fst li) = None)
      \<longrightarrow> german_get_data w (fst (hd ps)) log =
            Some (case german_page (snd (last ps)) of
                    Inl e \<Rightarrow> Inl e
                  | Inr r \<Rightarrow> Inr (concat (map (\<lambda>(u, p). records_of (german_page p)) ps)),
                  log @ map fst ps)) \<and>
     ((\<forall>i. Suc i < length ps \<longrightarrow>
          (\<exists>d. scrape_page (snd (ps ! i)) = Inr d) \<and>
          get_next_page (snd (ps ! i)) = Some (fst (ps ! Suc i))) \<and>
      find_tag (\<lambda>n. has_name (lit ''a'') n \<and> has_attr (lit ''title'') (lit ''Next Page'') n)
        (snd (last ps)) = None
      \<longrightarrow> get_data_loop (italy_page w) (Some (fst (hd ps))) [] log =
            Some (case scrape_page (snd (last ps)) of
                    Inl e \<Rightarrow> Inl e
                  | Inr d \<Rightarrow> Inr (concat (map (\<lambda>(u, p). case scrape_page p of
                                                          Inl e \<Rightarrow> [] | Inr d \<Rightarrow> d) ps)),
                  log @ map fst ps))"
proof -
  let ?w = "\<lambda>u. map_sum id soup_of (w u)"
  have served': "\<forall>(u, p)\<in>set ps. u \<noteq> [] \<and> ?w u = Inr p"
    using served by auto
  show ?thesis
  proof (intro conjI impI)
  let ?F = "\<lambda>r. (case r of
               Inl e \<Rightarrow> Inr ([], None)
             | Inr soup \<Rightarrow> Inr (records_of (dutch_page soup),
                               case dutch_page soup of Inl e \<Rightarrow> None | Inr r \<Rightarrow> snd r)) ::
               error + (record_t list \<times> pystr option)"
  assume h: "(\<forall>i. Suc i < length ps \<longrightarrow>
          (\<exists>d. dutch_page (snd (ps ! i)) = Inr (d, Some (fst (ps ! Suc i))))) \<and>
      (case find_tag (\<lambda>n. has_name (lit ''li'') n \<and>
                         has_class (lit ''paging__unit paging__unit--next'') n) (snd (last ps)) of
         None \<Rightarrow> True | Some li \<Rightarrow> find_tag (has_name (lit ''a'')) (fst li) = None)"
  then have nxt: "dutch_next (snd (last ps)) = None"
    by (intro dutch_next_absent) simp
  have page: "\<And>u l. (case dutch_get_data_page w u l of (r, log') \<Rightarrow> (Inr r, log')) = (?F (?w u), l @ [u])"
    by (simp add: dutch_page_fn)
  have link: "\<forall>i. Suc i < length ps \<longrightarrow>
                 (\<exists>d. ?F (Inr (snd (ps ! i))) = Inr (d, Some (fst (ps ! Suc i))))"
    using h by fastforce
  have stop: "case ?F (Inr (snd (last ps))) of Inl e \<Rightarrow> True | Inr (d, n) \<Rightarrow> \<not> truthy n"
    using nxt by (simp add: dutch_page_def split: sum.splits)
  have recs: "map (\<lambda>(u, p). records_of (?F (Inr p))) ps = map (\<lambda>(u, p). records_of (dutch_page p)) ps"
    by simp
  show "dutch_get_data w (fst (hd ps)) log =
          Some (Inr (concat (map (\<lambda>(u, p). records_of (dutch_page p)) ps)), log @ map fst ps)"
    unfolding dutch_get_data_def
    using crawl_pages [where F = ?F and w = ?w, OF page ne served' link stop, of log] recs
    by simp
next
  let ?F = "\<lambda>r. case r of Inl e \<Rightarrow> Inl e | Inr soup \<Rightarrow> german_page soup"
  assume h: "(\<forall>i. Suc i < length ps \<longrightarrow>
          (\<exists>d. german_page (snd (ps ! i)) = Inr (d, Some (fst (ps ! Suc i))))) \<and>
      (case find_tag (\<lambda>n. has_name (lit ''li'') n \<and>
                         has_class (lit ''c-navindex__item is-forward'') n) (snd (last ps)) of
         None \<Rightarrow> True | Some li \<Rightarrow> find_tag (has_name (lit ''a'')) (fst li) = None)"
  have page: "\<And>u l. german_get_data_page w u l = (?F (?w u), l @ [u])"
    by (simp add: german_get_data_page_res)
  have link: "\<forall>i. Suc i < length ps \<longrightarrow>
                 (\<exists>d. ?F (Inr (snd (ps ! i))) = Inr (d, Some (fst (ps ! Suc i))))"
    using h by simp
  have stop: "case ?F (Inr (snd (last ps))) of Inl e \<Rightarrow> True | Inr (d, n) \<Rightarrow> \<not> truthy n"
    using h german_page_absent [of "snd (last ps)"] by simp
  show "german_get_data w (fst (hd ps)) log =
          Some (case german_page (snd (last ps)) of
                  Inl e \<Rightarrow> Inl e
                | Inr r \<Rightarrow> Inr (concat (map (\<lambda>(u, p). records_of (german_page p)) ps)),
                log @ map fst ps)"
    unfolding german_get_data_def
    using crawl_pages [where F = ?F and w = ?w, OF page ne served' link stop, of log]
    by (simp cong: sum.case_cong)
next
  let ?F = "\<lambda>r. case r of
               Inl e \<Rightarrow> Inl e
             | Inr soup \<Rightarrow> (case scrape_page soup of
                              Inl e \<Rightarrow> Inl e
                            | Inr data \<Rightarrow> Inr (data, get_next_page soup))"
  assume h: "(\<forall>i. Suc i < length ps \<longrightarrow>
          (\<exists>d. scrape_page (snd (ps ! i)) = Inr d) \<and>
          get_next_page (snd (ps ! i)) = Some (fst (ps ! Suc i))) \<and>
      find_tag (\<lambda>n. has_name (lit ''a'') n \<and> has_attr (lit ''title'') (lit ''Next Page'') n)
        (snd (last ps)) = None"
  then have nxt: "get_next_page (snd (last ps)) = None"
    by (simp add: get_next_page_def)
  have page: "\<And>u l. italy_page w u l = (?F (?w u), l @ [u])"
    by (simp add: italy_page_res)
  have link: "\<forall>i. Suc i < length ps \<longrightarrow>
                 (\<exists>d. ?F (Inr (snd (ps ! i))) = Inr (d, Some (fst (ps ! Suc i))))"
    using h by fastforce
  have stop: "case ?F (Inr (snd (last ps))) of Inl e \<Rightarrow> True | Inr (d, n) \<Rightarrow> \<not> truthy n"
    using nxt by (simp split: sum.splits)
  have recs: "map (\<lambda>(u, p). records_of (?F (Inr p))) ps =
              map (\<lambda>(u, p). case scrape_page p of Inl e \<Rightarrow> [] | Inr d \<Rightarrow> d) ps"
    by (auto split: sum.splits)
  have res: "(case ?F (Inr (snd (last ps))) of Inl e \<Rightarrow> Inl e | Inr r \<Rightarrow> Inr X) =
             (case scrape_page (snd (last ps)) of Inl e \<Rightarrow> Inl e | Inr d \<Rightarrow> Inr X)" for X :: "record_t list"
    by (simp split: sum.splits)
  show "get_data_loop (italy_page w) (Some (fst (hd ps))) [] log =
          Some (case scrape_page (snd (last ps)) of
                  Inl e \<Rightarrow> Inl e
                | Inr d \<Rightarrow> Inr (concat (map (\<lambda>(u, p). case scrape_page p of
                                                        Inl e \<Rightarrow> [] | Inr d \<Rightarrow> d) ps)),
                log @ map fst ps)"
    using crawl_pages [where F = ?F and w = ?w, OF page ne served' link stop, of log]
    by (simp only: recs res)
qed
qed

lemma german_page_no_item:
  "find_tag (\<lambda>n. has_name (lit ''li'') n \<and> has_class (lit ''c-navindex__item is-forward'') n) soup = None
     \<Longrightarrow> \<exists>e. german_page soup = Inl e"
  by (simp add: german_page_def german_next_def split: sum.splits)

text \<open>
  C8. On a chain of K pages whose last page has no next-link element the crawl loop makes
  exactly K fetches and then terminates. The Dutch and the Italian loop do: on the two
  pages below each makes two requests and returns the records in page order. The German
  loop makes the two requests as well, but reading the second page, which has no forward
  item, raises \<open>AttributeError\<close> (the defect of C1): the loop is left by the exception
  and \<open>get_data\<close> returns nothing, so the records of both pages are lost. That holds
  for every page without the forward item (\<open>german_page_no_item\<close>).
\<close>

theorem german_crawl_raises_on_last_page:
  "dutch_get_data (two_pages dutch_page_1 dutch_page_2) (lit ''http://h/1'') [] =
     Some (Inr [[(lit ''title'', Str (lit ''Recall A'')), (lit ''warning_text'', Str (lit ''text A'')),
                 (lit ''date'', Str (lit ''2023-01-01''))],
                [(lit ''title'', Str (lit ''Recall B'')), (lit ''warning_text'', Str (lit ''text B'')),
                 (lit ''date'', Str (lit ''2023-01-02''))],
                [(lit ''title'', Str (lit ''Recall C'')), (lit ''warning_text'', Str (lit ''text C'')),
                 (lit ''date'', Str (lit ''2023-01-03''))]],
           [lit ''http://h/1'', lit ''http://h/2'']) \<and>
   german_get_data (two_pages german_page_1 german_last_page) (lit ''http://h/1'') [] =
     Some (Inl AttributeError, [lit ''http://h/1'', lit ''http://h/2'']) \<and>
   get_data_loop (italy_page (two_pages italy_page_1 italy_page_2)) (Some (lit ''http://h/1'')) [] [] =
     Some (Inr [[(lit ''column_1'', Str (lit ''Pump''))], [(lit ''column_1'', Str (lit ''Stent''))]],
           [lit ''http://h/1'', lit ''http://h/2''])"
  using
    get_data_chain [of "[(lit ''http://h/1'', dutch_page_1), (lit ''http://h/2'', dutch_page_2)]"
      "two_pages dutch_page_1 dutch_page_2" "[]"]
    get_data_chain [of "[(lit ''http://h/1'', german_page_1), (lit ''http://h/2'', german_last_page)]"
      "two_pages german_page_1 german_last_page" "[]"]
    get_data_chain [of "[(lit ''http://h/1'', italy_page_1), (lit ''http://h/2'', italy_page_2)]"
      "two_pages italy_page_1 italy_page_2" "[]"]
  by (simp add: two_pages_urls dutch_pages_eval german_pages_eval italy_pages_eval)

section \<open>The output file\<close>

lemma writerows_ok:
  "\<forall>r\<in>set data. set (map fst r) \<subseteq> set keys \<and> (\<forall>v\<in>snd ` set r. str_encodable v) \<Longrightarrow>
     writerows keys data out =
       (None, out @ map (\<lambda>r. map (\<lambda>k. case map_of r k of Some v \<Rightarrow> v | None \<Rightarrow> Str []) keys) data)"
proof (induction data arbitrary: out)
  case Nil
  then show ?case by simp
next
  case (Cons r data)
  have "str_encodable (case map_of r k of Some v \<Rightarrow> v | None \<Rightarrow> Str [])" for k
  proof (cases "map_of r k")
    case None
    then show ?thesis by (simp add: encodable_def)
  next
    case (Some v)
    then have "v \<in> snd ` set r" by (force dest: map_of_SomeD)
    with Cons.prems Some show ?thesis by auto
  qed
  then have enc: "list_all str_encodable
                    (map (\<lambda>k. case map_of r k of Some v \<Rightarrow> v | None \<Rightarrow> Str []) keys)"
    by (simp add: list_all_iff)
  from Cons.prems have "\<not> list_ex (\<lambda>k. k \<notin> set keys) (map fst r)"
    by (auto simp: list_ex_iff)
  with enc Cons show ?case
    by (simp add: dict_to_list_def write_line_def)
qed

lemma row_values:
  "set (map fst r) = set keys \<Longrightarrow>
     map (\<lambda>k. case map_of r k of Some v \<Rightarrow> v | None \<Rightarrow> Str []) keys =
     map (\<lambda>k. the (map_of r k)) keys"
proof (rule map_cong [OF refl])
  fix k assume "set (map fst r) = set keys" "k \<in> set keys"
  then have "k \<in> fst ` set r" by auto
  then obtain v where "map_of r k = Some v"
    by (metis map_of_eq_None_iff not_Some_eq)
  then show "(case map_of r k of Some v \<Rightarrow> v | None \<Rightarrow> Str []) = the (map_of r k)" by simp
qed

text \<open>
  C9, as stated: for every non-empty list of records the sink writes the header row and
  one row per record. The file is opened with \<open>encoding="utf-8"\<close>, and a lone surrogate
  cannot be encoded. For the one record below, whose value is the code point \<open>D800\<close>,
  both sinks write the header, and the row of the record raises \<open>UnicodeEncodeError\<close>:
  the file holds the header row and no row for the record.
\<close>

theorem sink_lone_surrogate:
  "write_to_csv [[(lit ''a'', Str [0xD800])]] (lit ''out.csv'') Map.empty =
     (Some UnicodeEncodeError, [lit ''out.csv'' \<mapsto> [[Str (lit ''a'')]]]) \<and>
   save_to_csv [[(lit ''a'', Str [0xD800])]] (lit ''out.csv'') Map.empty =
     (Some UnicodeEncodeError, [lit ''out.csv'' \<mapsto> [[Str (lit ''a'')]]])"
  by (simp add: write_to_csv_def save_to_csv_def writeheader_def write_line_def dict_to_list_def
      encodable_def lit_def)

text \<open>
  C9, amended. For a non-empty list of records that all have the field names of the
  first one, and whose field names and values can be encoded in UTF-8, both sinks write
  (without an exception) one header row, the field names of the first record in its key
  order, and then one row per record in the order of the list, each holding the values
  of the record in the key order of the header. The list handed to the sink is the
  accumulator of the crawl loop, which appends the records of each page in turn.
\<close>

theorem sink_header_and_rows:
  assumes nonempty: "data \<noteq> []"
    and names: "\<forall>r\<in>set data. set (map fst r) = set (map fst (hd data))"
    and keys_enc: "\<forall>k\<in>set (map fst (hd data)). encodable k"
    and vals_enc: "\<forall>r\<in>set data. \<forall>v\<in>snd ` set r. str_encodable v"
  shows "write_to_csv data filename fs =
           (None, fs(filename \<mapsto>
              map Str (map fst (hd data)) #
              map (\<lambda>r. map (\<lambda>k. the (map_of r k)) (map fst (hd data))) data)) \<and>
         save_to_csv data filename fs =
           (None, fs(filename \<mapsto>
              map Str (map fst (hd data)) #
              map (\<lambda>r. map (\<lambda>k. the (map_of r k)) (map fst (hd data))) data))"
proof -
  from nonempty obtain first rest where d: "data = first # rest"
    by (cases data) auto
  let ?keys = "map fst first"
  have hd: "hd data = first" using d by simp
  from names vals_enc d have sub:
    "\<forall>r\<in>set data. set (map fst r) \<subseteq> set ?keys \<and> (\<forall>v\<in>snd ` set r. str_encodable v)"
    by auto
  have rows: "map (\<lambda>r. map (\<lambda>k. case map_of r k of Some v \<Rightarrow> v | None \<Rightarrow> Str []) ?keys) data =
              map (\<lambda>r. map (\<lambda>k. the (map_of r k)) ?keys) data"
  proof (rule map_cong [OF refl])
    fix r assume "r \<in> set data"
    with names have "set (map fst r) = set (map fst (hd data))" by blast
    with d have "set (map fst r) = set ?keys" by simp
    then show "map (\<lambda>k. case map_of r k of Some v \<Rightarrow> v | None \<Rightarrow> Str []) ?keys =
               map (\<lambda>k. the (map_of r k)) ?keys"
      by (rule row_values)
  qed
  from keys_enc hd have "list_all str_encodable (map Str ?keys)"
    by (simp add: list_all_iff)
  then have h: "writeheader ?keys [] = Inr [map Str ?keys]"
    by (simp add: writeheader_def write_line_def)
  have w: "writerows ?keys data [map Str ?keys] =
             (None, map Str ?keys # map (\<lambda>r. map (\<lambda>k. the (map_of r k)) ?keys) data)"
    using writerows_ok [OF sub, of "[map Str ?keys]"] rows by simp
  show ?thesis
    unfolding hd
    using h w d by (simp add: write_to_csv_def save_to_csv_def)
qed

theorem sink_header_and_rows_witness:
  "write_to_csv [[(lit ''a'', Str (lit ''1'')), (lit ''b'', Str (lit ''2''))],
                 [(lit ''b'', Str (lit ''4'')), (lit ''a'', Str (lit ''3''))]]
     (lit ''out.csv'') Map.empty =
     (None, [lit ''out.csv'' \<mapsto> [[Str (lit ''a''), Str (lit ''b'')],
                                    [Str (lit ''1''), Str (lit ''2'')],
                                    [Str (lit ''3''), Str (lit ''4'')]]]) \<and>
   save_to_csv [[(lit ''a'', Str (lit ''1'')), (lit ''b'', Str (lit ''2''))],
                [(lit ''b'', Str (lit ''4'')), (lit ''a'', Str (lit ''3''))]]
     (lit ''out.csv'') Map.empty =
     (None, [lit ''out.csv'' \<mapsto> [[Str (lit ''a''), Str (lit ''b'')],
                                    [Str (lit ''1''), Str (lit ''2'')],
                                    [Str (lit ''3''), Str (lit ''4'')]]])"
  using sink_header_and_rows [of "[[(lit ''a'', Str (lit ''1'')), (lit ''b'', Str (lit ''2''))],
                 [(lit ''b'', Str (lit ''4'')), (lit ''a'', Str (lit ''3''))]]"
      "lit ''out.csv''" Map.empty]
  by (simp add: lit_def insert_commute encodable_def)

lemma sinks_empty:
  "save_to_csv [] filename fs = (None, fs)"
  "write_to_csv [] filename fs = (Some IndexError, fs(filename \<mapsto> []))"
  by (simp_all add: save_to_csv_def write_to_csv_def)

lemma german_main_empty:
  "german_get_data w german_start_url log = Some (Inr [], log') \<Longrightarrow>
     german_main w fs log = Some (None, fs, log')"
  by (simp add: german_main_def)

text \<open>
  C3. A crawl that collected no record produces no output file. The German \<open>main\<close> does
  not call the sink and the Italian \<open>save_to_csv\<close> returns before opening the file, but
  the Dutch script calls \<open>write_to_csv\<close> with the empty list: the file is opened for
  writing, which empties it, and \<open>data[0]\<close> raises \<open>IndexError\<close>. Below, the start page
  has no matching anchor and no next link, and the file existed with one row.
\<close>

theorem dutch_script_empty_crawl:
  "dutch_script (serve 200 (document [])) [lit ''devices_data.csv'' \<mapsto> [[Str (lit ''title'')]]] [] =
     Some (Some IndexError, [lit ''devices_data.csv'' \<mapsto> []], [dutch_start_url])"
  by (simp add: dutch_script_def dutch_get_data_def get_data_loop.simps dutch_get_data_page_def
      dutch_try_def dutch_page_def session_get_def dutch_extract_def dutch_next_def find_tag_def
      find_all_def write_to_csv_def document_def serve_def dutch_start_url_def lit_def)

section \<open>Surrogate stripping\<close>

text \<open>One step of the decoder on a well-formed or a refused sequence.\<close>

lemma dec_cont: "is_cont b \<Longrightarrow> utf8_decode_ignore (b # s) = utf8_decode_ignore s"
  by (simp add: is_cont_def)

lemma dec_high: "0xF5 \<le> b \<Longrightarrow> utf8_decode_ignore (b # s) = utf8_decode_ignore s"
  by simp

lemma dec2:
  "0xC2 \<le> b1 \<Longrightarrow> b1 < 0xE0 \<Longrightarrow> is_cont b2 \<Longrightarrow>
     utf8_decode_ignore (b1 # b2 # s) = (b1 * 64 + b2 - (0xC0 * 64 + 0x80)) # utf8_decode_ignore s"
  by (subst utf8_decode_ignore.simps) (simp del: utf8_decode_ignore.simps)

lemma dec3:
  "0xE0 \<le> b1 \<Longrightarrow> b1 < 0xF0 \<Longrightarrow> is_cont b2 \<Longrightarrow> is_cont b3 \<Longrightarrow>
   \<not> (b1 = 0xE0 \<and> b2 < 0xA0) \<Longrightarrow> \<not> (b1 = 0xED \<and> 0xA0 \<le> b2) \<Longrightarrow>
     utf8_decode_ignore (b1 # b2 # b3 # s) =
       (b1 * 4096 + b2 * 64 + b3 - (0xE0 * 4096 + 0x80 * 64 + 0x80)) # utf8_decode_ignore s"
  by (subst utf8_decode_ignore.simps) (auto simp del: utf8_decode_ignore.simps)

lemma dec3_surrogate:
  "is_cont b2 \<Longrightarrow> 0xA0 \<le> b2 \<Longrightarrow> is_cont b3 \<Longrightarrow>
     utf8_decode_ignore (0xED # b2 # b3 # s) = utf8_decode_ignore s"
  by (subst utf8_decode_ignore.simps) (simp del: utf8_decode_ignore.simps add: dec_cont)

lemma dec4:
  "0xF0 \<le> b1 \<Longrightarrow> b1 < 0xF5 \<Longrightarrow> is_cont b2 \<Longrightarrow> is_cont b3 \<Longrightarrow> is_cont b4 \<Longrightarrow>
   \<not> (b1 = 0xF0 \<and> b2 < 0x90) \<Longrightarrow> \<not> (b1 = 0xF4 \<and> 0x90 \<le> b2) \<Longrightarrow>
     utf8_decode_ignore (b1 # b2 # b3 # b4 # s) =
       (b1 * 262144 + b2 * 4096 + b3 * 64 + b4 - (0xF0 * 262144 + 0x80 * 4096 + 0x80 * 64 + 0x80))
       # utf8_decode_ignore s"
  by (subst utf8_decode_ignore.simps) (auto simp del: utf8_decode_ignore.simps)

lemma dec4_beyond:
  "is_cont b2 \<Longrightarrow> 0x90 \<le> b2 \<Longrightarrow> is_cont b3 \<Longrightarrow> is_cont b4 \<Longrightarrow>
     utf8_decode_ignore (0xF4 # b2 # b3 # b4 # s) = utf8_decode_ignore s"
  by (subst utf8_decode_ignore.simps) (simp del: utf8_decode_ignore.simps add: dec_cont)

lemma digits:
  fixes c :: nat
  obtains a b d e where
    "c = 262144 * a + 4096 * b + 64 * d + e" "b < 64" "d < 64" "e < 64"
    "c div 262144 = a" "c div 4096 = 64 * a + b" "c div 4096 mod 64 = b"
    "c div 64 = 4096 * a + 64 * b + d" "c div 64 mod 64 = d" "c mod 64 = e"
proof -
  have a: "c div 4096 = c div 64 div 64" "c div 262144 = c div 64 div 64 div 64"
    by (simp_all add: div_mult2_eq [symmetric])
  have b: "c = 64 * (c div 64) + c mod 64" "c div 64 = 64 * (c div 64 div 64) + c div 64 mod 64"
    "c div 64 div 64 = 64 * (c div 64 div 64 div 64) + c div 64 div 64 mod 64"
    by simp_all
  have 1: "c = 262144 * (c div 262144) + 4096 * (c div 4096 mod 64) + 64 * (c div 64 mod 64) + c mod 64"
    unfolding a using b by linarith
  have 2: "c div 4096 = 64 * (c div 262144) + c div 4096 mod 64"
    unfolding a using b by linarith
  have 3: "c div 64 = 4096 * (c div 262144) + 64 * (c div 4096 mod 64) + c div 64 mod 64"
    unfolding a using b by linarith
  have 4: "c div 4096 mod 64 < 64" "c div 64 mod 64 < 64" "c mod 64 < 64"
    by simp_all
  show thesis
    by (rule that [of "c div 262144" "c div 4096 mod 64" "c div 64 mod 64" "c mod 64"])
       (rule 1 2 3 4 refl)+
qed

lemma decode_encode_char:
  "utf8_decode_ignore (encode_char c @ rest) =
     (if c < 0x110000 \<and> \<not> (0xD800 \<le> c \<and> c < 0xE000) then [c] else []) @ utf8_decode_ignore rest"
proof -
  obtain a b d e where c: "c = 262144 * a + 4096 * b + 64 * d + e"
    and lt: "b < 64" "d < 64" "e < 64"
    and dv: "c div 262144 = a" "c div 4096 = 64 * a + b" "c div 4096 mod 64 = b"
      "c div 64 = 4096 * a + 64 * b + d" "c div 64 mod 64 = d" "c mod 64 = e"
    by (rule digits)
  consider (one) "c < 0x80" | (two) "0x80 \<le> c" "c < 0x800"
    | (three) "0x800 \<le> c" "c < 0x10000" "\<not> (0xD800 \<le> c \<and> c < 0xE000)"
    | (surrogate) "0xD800 \<le> c" "c < 0xE000"
    | (four) "0x10000 \<le> c" "c < 0x110000"
    | (beyond) "0x110000 \<le> c" "c < 0x140000"
    | (far) "0x140000 \<le> c"
    by linarith
  then show ?thesis
  proof cases
    case one
    then show ?thesis by (simp add: encode_char_def)
  next
    case two
    have z: "a = 0" "b = 0" using two c by linarith+
    have enc: "encode_char c = [0xC0 + d, 0x80 + e]"
      using two by (simp add: encode_char_def dv(4,6) z)
    have "0xC2 \<le> 0xC0 + d" "0xC0 + d < 0xE0" "is_cont (0x80 + e)"
      "(0xC0 + d) * 64 + (0x80 + e) - (0xC0 * 64 + 0x80) = c"
      unfolding is_cont_def using two c lt z by simp_all
    then show ?thesis using two by (simp add: enc dec2 del: utf8_decode_ignore.simps)
  next
    case three
    have z: "a = 0" using three c by linarith
    have enc: "encode_char c = [0xE0 + b, 0x80 + d, 0x80 + e]"
      using three by (simp add: encode_char_def dv(2,5,6) z)
    have "0xE0 \<le> 0xE0 + b" "0xE0 + b < 0xF0" "is_cont (0x80 + d)" "is_cont (0x80 + e)"
      "\<not> (0xE0 + b = 0xE0 \<and> 0x80 + d < 0xA0)" "\<not> (0xE0 + b = 0xED \<and> 0xA0 \<le> 0x80 + d)"
      "(0xE0 + b) * 4096 + (0x80 + d) * 64 + (0x80 + e) - (0xE0 * 4096 + 0x80 * 64 + 0x80) = c"
      unfolding is_cont_def using three c lt z by simp_all linarith+
    then show ?thesis using three by (simp add: enc dec3 del: utf8_decode_ignore.simps)
  next
    case surrogate
    have a0: "a = 0" using surrogate c by linarith
    have "b \<le> 13" "13 \<le> b" using surrogate c lt a0 by linarith+
    then have z: "a = 0" "b = 13" using a0 by simp_all
    have enc: "encode_char c = [0xED, 0x80 + d, 0x80 + e]"
      using surrogate by (simp add: encode_char_def dv(2,5,6) z)
    have "is_cont (0x80 + d)" "0xA0 \<le> 0x80 + d" "is_cont (0x80 + e)"
      unfolding is_cont_def using surrogate c lt z by simp_all
    then show ?thesis using surrogate by (simp add: enc dec3_surrogate del: utf8_decode_ignore.simps)
  next
    case four
    have enc: "encode_char c = [0xF0 + a, 0x80 + b, 0x80 + d, 0x80 + e]"
      using four by (simp add: encode_char_def dv(1,3,5,6))
    have "0xF0 \<le> 0xF0 + a" "0xF0 + a < 0xF5" "is_cont (0x80 + b)" "is_cont (0x80 + d)"
      "is_cont (0x80 + e)"
      "\<not> (0xF0 + a = 0xF0 \<and> 0x80 + b < 0x90)" "\<not> (0xF0 + a = 0xF4 \<and> 0x90 \<le> 0x80 + b)"
      "(0xF0 + a) * 262144 + (0x80 + b) * 4096 + (0x80 + d) * 64 + (0x80 + e)
         - (0xF0 * 262144 + 0x80 * 4096 + 0x80 * 64 + 0x80) = c"
      unfolding is_cont_def using four c lt by simp_all linarith+
    then show ?thesis using four by (simp add: enc dec4 del: utf8_decode_ignore.simps)
  next
    case beyond
    have "a \<le> 4" "4 \<le> a" using beyond c lt by linarith+
    then have z: "a = 4" by simp
    have enc: "encode_char c = [0xF4, 0x80 + b, 0x80 + d, 0x80 + e]"
      using beyond by (simp add: encode_char_def dv(1,3,5,6) z)
    have "is_cont (0x80 + b)" "0x90 \<le> 0x80 + b" "is_cont (0x80 + d)" "is_cont (0x80 + e)"
      unfolding is_cont_def using beyond c lt z by simp_all
    then show ?thesis using beyond by (simp add: enc dec4_beyond del: utf8_decode_ignore.simps)
  next
    case far
    have enc: "encode_char c = [0xF0 + a, 0x80 + b, 0x80 + d, 0x80 + e]"
      using far by (simp add: encode_char_def dv(1,3,5,6))
    have "0xF5 \<le> 0xF0 + a" "is_cont (0x80 + b)" "is_cont (0x80 + d)" "is_cont (0x80 + e)"
      unfolding is_cont_def using far c lt by simp_all
    then show ?thesis using far by (simp add: enc dec_high dec_cont del: utf8_decode_ignore.simps)
  qed
qed

lemma remove_surrogates_filter:
  "remove_surrogates s =
     filter (\<lambda>c. c < 0x110000 \<and> \<not> (0xD800 \<le> c \<and> c < 0xE000)) s"
  unfolding remove_surrogates_def utf8_encode_surrogatepass_def
  by (induction s) (simp_all add: decode_encode_char del: utf8_decode_ignore.simps(2))

text \<open>
  C10. \<open>remove_surrogates\<close> is idempotent. Encoding and decoding keeps every code point
  that is no surrogate and drops the surrogates, so a second pass finds nothing to drop.
\<close>

theorem remove_surrogates_idempotent:
  "remove_surrogates (remove_surrogates s) = remove_surrogates s"
  by (simp add: remove_surrogates_filter)

text \<open>
  What \<open>remove_surrogates\<close> returns can be encoded, so the values of the records of the
  Italian extractor never make the sink fail.
\<close>

lemma remove_surrogates_encodable: "encodable (remove_surrogates s)"
  by (auto simp: remove_surrogates_filter encodable_def list_all_iff)

lemma scrape_row_encodable:
  "scrape_row row = Inr r \<Longrightarrow> \<forall>v\<in>snd ` set r. str_encodable v"
  by (auto simp: scrape_row_def remove_surrogates_encodable split: list.splits)

end
